theory Spec2Isabelle
  imports Main "HOL-Library.AList"
begin

section \<open>The persistent store as seen by \<^verbatim>\<open>DatabaseService\<close>\<close>

text \<open>
  The service talks to a Supabase project. Two of its tables matter for the presence
  and broadcast layer and are modelled as lists of rows: \<^verbatim>\<open>presentations\<close> (scalar
  columns only) and \<^verbatim>\<open>presentation_users\<close>. The tables \<^verbatim>\<open>slides\<close> and
  \<^verbatim>\<open>text_blocks\<close> are not modelled: a request against them is represented by the
  response that Supabase gives, and the slide objects travel as opaque values.
  Time stamps are milliseconds since the epoch.
\<close>

type_synonym json = string

datatype role = Owner | Editor | Viewer

record PresentationUser =
  user_id :: string
  presentation_id :: string
  nickname :: string
  role :: role
  socket_id :: "string option"
  is_active :: bool
  joined_at :: int
  last_seen :: int

record Presentation =
  pres_id :: string
  title :: string
  current_slide_index :: int
  present_mode :: bool

record store =
  presentations :: "Presentation list"
  presentation_users :: "PresentationUser list"

text \<open>What a Supabase request returns: \<^verbatim>\<open>{ data, error }\<close>.\<close>

record sb_error =
  err_code :: string
  err_message :: string

datatype 'a response = Data 'a | Failure sb_error

text \<open>
  Every request takes the error it comes back with, if the request itself fails
  (network, service outage, rejected statement). A request that comes back with an
  error has changed nothing.
\<close>

definition request :: "sb_error option \<Rightarrow> 'a response \<Rightarrow> 'a response" where
  "request fault r = (case fault of Some e \<Rightarrow> Failure e | None \<Rightarrow> r)"

text \<open>\<^verbatim>\<open>.single()\<close>: exactly one row, or the PostgREST error \<^verbatim>\<open>PGRST116\<close>.\<close>

definition single :: "'a list \<Rightarrow> 'a response" where
  "single rows =
     (case rows of
        [r] \<Rightarrow> Data r
      | _ \<Rightarrow> Failure \<lparr>err_code = ''PGRST116'',
                      err_message = ''JSON object requested, multiple (or no) rows returned''\<rparr>)"

text \<open>\<^verbatim>\<open>.update(values)\<close> with its filters: every matching row is rewritten in place.\<close>

definition update_users ::
  "store \<Rightarrow> (PresentationUser \<Rightarrow> bool) \<Rightarrow> (PresentationUser \<Rightarrow> PresentationUser) \<Rightarrow>
   sb_error option \<Rightarrow> sb_error option \<times> store" where
  "update_users st matches values fault =
     (case fault of
        Some e \<Rightarrow> (Some e, st)
      | None \<Rightarrow>
          (None, st\<lparr>presentation_users :=
                      map (\<lambda>r. if matches r then values r else r) (presentation_users st)\<rparr>))"

text \<open>
  \<^verbatim>\<open>.insert(row)\<close> into \<^verbatim>\<open>presentation_users\<close>. The schema makes \<^verbatim>\<open>id\<close> the
  primary key and \<^verbatim>\<open>presentation_id\<close> a reference to \<^verbatim>\<open>presentations(id)\<close>.
\<close>

definition insert_user ::
  "store \<Rightarrow> PresentationUser \<Rightarrow> sb_error option \<Rightarrow> PresentationUser response \<times> store" where
  "insert_user st row fault =
     (case fault of
        Some e \<Rightarrow> (Failure e, st)
      | None \<Rightarrow>
          if user_id row \<in> set (map user_id (presentation_users st))
          then (Failure \<lparr>err_code = ''23505'',
                         err_message = ''duplicate key value violates unique constraint''\<rparr>, st)
          else if presentation_id row \<notin> set (map pres_id (presentations st))
          then (Failure \<lparr>err_code = ''23503'',
                         err_message = ''insert or update violates foreign key constraint''\<rparr>, st)
          else (Data row, st\<lparr>presentation_users := presentation_users st @ [row]\<rparr>))"

subsection \<open>The methods of \<^verbatim>\<open>DatabaseService\<close> used by the socket layer\<close>

text \<open>
  A thrown \<^verbatim>\<open>Error\<close> is \<open>Inl\<close> of its message. The slides and text blocks that
  \<^verbatim>\<open>getPresentationById\<close> selects along with the presentation, and sorts, are
  outside the model.
\<close>

definition getPresentationById ::
  "store \<Rightarrow> string \<Rightarrow> sb_error option \<Rightarrow> string + Presentation option" where
  "getPresentationById st ident fault =
     (case request fault (single (filter (\<lambda>p. pres_id p = ident) (presentations st))) of
        Failure e \<Rightarrow>
          if err_code e = ''PGRST116'' then Inr None
          else Inl (''Failed to fetch presentation: '' @ err_message e)
      | Data d \<Rightarrow> Inr (Some d))"

text \<open>
  \<^verbatim>\<open>addUserToPresentation\<close>: the new row's id is the value of \<^verbatim>\<open>uuidv4()\<close>, and the
  columns \<^verbatim>\<open>joined_at\<close>, \<^verbatim>\<open>last_seen\<close> default to the store's clock.
\<close>

definition addUserToPresentation ::
  "store \<Rightarrow> string \<Rightarrow> string \<Rightarrow> role \<Rightarrow> string option \<Rightarrow> string \<Rightarrow> int \<Rightarrow> sb_error option \<Rightarrow>
   string + PresentationUser \<times> store" where
  "addUserToPresentation st presentationId nick rl socketId uuid now fault =
     (case insert_user st
             \<lparr>user_id = uuid, presentation_id = presentationId, nickname = nick, role = rl,
              socket_id = socketId, is_active = True, joined_at = now, last_seen = now\<rparr> fault of
        (Failure e, _) \<Rightarrow> Inl (''Failed to add user to presentation: '' @ err_message e)
      | (Data d, st') \<Rightarrow> Inr (d, st'))"

definition updateUserRole ::
  "store \<Rightarrow> string \<Rightarrow> string \<Rightarrow> role \<Rightarrow> sb_error option \<Rightarrow> string + PresentationUser \<times> store" where
  "updateUserRole st presentationId userId rl fault =
     (let matches = (\<lambda>r. user_id r = userId \<and> presentation_id r = presentationId) in
      case request fault
             (single (map (\<lambda>r. r\<lparr>role := rl\<rparr>) (filter matches (presentation_users st)))) of
        Failure e \<Rightarrow> Inl (''Failed to update user role: '' @ err_message e)
      | Data d \<Rightarrow> Inr (d, snd (update_users st matches (\<lambda>r. r\<lparr>role := rl\<rparr>) None)))"

definition removeUserFromPresentation ::
  "store \<Rightarrow> string \<Rightarrow> string \<Rightarrow> sb_error option \<Rightarrow> string + store" where
  "removeUserFromPresentation st presentationId userId fault =
     (case update_users st (\<lambda>r. user_id r = userId \<and> presentation_id r = presentationId)
             (\<lambda>r. r\<lparr>is_active := False\<rparr>) fault of
        (Some e, _) \<Rightarrow> Inl (''Failed to remove user from presentation: '' @ err_message e)
      | (None, st') \<Rightarrow> Inr st')"

definition removeUserBySocketId :: "store \<Rightarrow> string \<Rightarrow> sb_error option \<Rightarrow> string + store" where
  "removeUserBySocketId st socketId fault =
     (case update_users st (\<lambda>r. socket_id r = Some socketId)
             (\<lambda>r. r\<lparr>is_active := False\<rparr>) fault of
        (Some e, _) \<Rightarrow> Inl (''Failed to remove user by socket ID: '' @ err_message e)
      | (None, st') \<Rightarrow> Inr st')"

text \<open>
  \<^verbatim>\<open>getPresentationUsers\<close>: the active sessions of one presentation, oldest first.
\<close>

definition getPresentationUsers ::
  "store \<Rightarrow> string \<Rightarrow> sb_error option \<Rightarrow> string + PresentationUser list" where
  "getPresentationUsers st presentationId fault =
     (case request fault
             (Data (sort_key joined_at
                      (filter (\<lambda>r. presentation_id r = presentationId \<and> is_active r)
                         (presentation_users st)))) of
        Failure e \<Rightarrow> Inl (''Failed to fetch presentation users: '' @ err_message e)
      | Data d \<Rightarrow> Inr d)"

text \<open>
  \<^verbatim>\<open>updatePresentation\<close> with the two partial updates the socket layer sends:
  \<^verbatim>\<open>{ current_slide_index }\<close> and \<^verbatim>\<open>{ present_mode }\<close>.
\<close>

datatype presentation_update = SetCurrentSlideIndex int | SetPresentMode bool

fun apply_update :: "presentation_update \<Rightarrow> Presentation \<Rightarrow> Presentation" where
  "apply_update (SetCurrentSlideIndex i) p = p\<lparr>current_slide_index := i\<rparr>"
| "apply_update (SetPresentMode b) p = p\<lparr>present_mode := b\<rparr>"

definition updatePresentation ::
  "store \<Rightarrow> string \<Rightarrow> presentation_update \<Rightarrow> sb_error option \<Rightarrow> string + Presentation \<times> store" where
  "updatePresentation st ident updates fault =
     (case request fault
             (single (map (apply_update updates)
                        (filter (\<lambda>p. pres_id p = ident) (presentations st)))) of
        Failure e \<Rightarrow> Inl (''Failed to update presentation: '' @ err_message e)
      | Data d \<Rightarrow>
          Inr (d, st\<lparr>presentations :=
                       map (\<lambda>p. if pres_id p = ident then apply_update updates p else p)
                         (presentations st)\<rparr>))"

text \<open>
  \<^verbatim>\<open>deletePresentation\<close>: the schema declares \<^verbatim>\<open>ON DELETE CASCADE\<close> on
  \<^verbatim>\<open>presentation_users.presentation_id\<close>, so the sessions of the presentation go
  with it.
\<close>

definition deletePresentation :: "store \<Rightarrow> string \<Rightarrow> sb_error option \<Rightarrow> string + store" where
  "deletePresentation st ident fault =
     (case fault of
        Some e \<Rightarrow> Inl (''Failed to delete presentation: '' @ err_message e)
      | None \<Rightarrow>
          Inr (st\<lparr>presentations := filter (\<lambda>p. pres_id p \<noteq> ident) (presentations st),
                  presentation_users :=
                    filter (\<lambda>r. presentation_id r \<noteq> ident) (presentation_users st)\<rparr>))"

text \<open>
  The methods on slides and text blocks, as functions of the response of their one
  request: \<^verbatim>\<open>if (error) throw new Error(...); return data\<close>.
\<close>

definition addSlide :: "json response \<Rightarrow> string + json" where
  "addSlide resp =
     (case resp of Failure e \<Rightarrow> Inl (''Failed to add slide: '' @ err_message e) | Data d \<Rightarrow> Inr d)"

definition removeSlide :: "unit response \<Rightarrow> string + unit" where
  "removeSlide resp =
     (case resp of Failure e \<Rightarrow> Inl (''Failed to remove slide: '' @ err_message e) | Data d \<Rightarrow> Inr d)"

definition updateSlideIndex :: "unit response \<Rightarrow> string + unit" where
  "updateSlideIndex resp =
     (case resp of Failure e \<Rightarrow> Inl (''Failed to update slide index: '' @ err_message e)
      | Data d \<Rightarrow> Inr d)"

definition addTextBlock :: "json response \<Rightarrow> string + json" where
  "addTextBlock resp =
     (case resp of Failure e \<Rightarrow> Inl (''Failed to add text block: '' @ err_message e)
      | Data d \<Rightarrow> Inr d)"

definition updateTextBlock :: "json response \<Rightarrow> string + json" where
  "updateTextBlock resp =
     (case resp of Failure e \<Rightarrow> Inl (''Failed to update text block: '' @ err_message e)
      | Data d \<Rightarrow> Inr d)"

definition removeTextBlock :: "unit response \<Rightarrow> string + unit" where
  "removeTextBlock resp =
     (case resp of Failure e \<Rightarrow> Inl (''Failed to remove text block: '' @ err_message e)
      | Data d \<Rightarrow> Inr d)"

section \<open>What a handler does to the outside world\<close>

text \<open>
  A handler's observable actions, in program order. \<open>Emit\<close> is one call of
  \<^verbatim>\<open>.emit(event, data)\<close>; its target is written as the code writes it:
  \<^verbatim>\<open>socket.emit\<close> (the handler's own connection), \<^verbatim>\<open>io.to(id).emit\<close>, or
  \<^verbatim>\<open>socket.to(room).emit\<close> (the Socket.IO room, the handler's own connection left
  out). \<open>StoreCall m ok\<close> marks the point where the awaited call of the
  \<^verbatim>\<open>DatabaseService\<close> method \<open>m\<close> has settled: resolved (\<open>True\<close>) or thrown.
\<close>

datatype target = Socket string | IoTo string | SocketTo string string

datatype payload =
    PMessage string
  | PUser PresentationUser
  | PJoined Presentation PresentationUser "PresentationUser list"
  | PUserId string
  | PJson json
  | PSlideId string
  | PSlides Presentation
  | PSlideIndex int
  | PTextBlock string json
  | PTextBlockId string string
  | PUserRole string role
  | PPresentationId string
  | PEmpty

datatype effect =
    Emit target string payload
  | SocketJoin string string
  | SocketLeave string string
  | StoreCall string bool
  | ConsoleLog "string list"
  | ConsoleError string string
  | Respond nat

subsection \<open>The inactivity sweep of \<^verbatim>\<open>DatabaseService\<close>\<close>

text \<open>
  \<^verbatim>\<open>new Date(t).toISOString()\<close> throws a \<^verbatim>\<open>RangeError\<close> outside the range of
  ECMAScript time values.
\<close>

definition valid_time :: "int \<Rightarrow> bool" where
  "valid_time t \<longleftrightarrow> - 8640000000000000 \<le> t \<and> t \<le> 8640000000000000"

definition cleanupInactiveUsers ::
  "store \<Rightarrow> int \<Rightarrow> int \<Rightarrow> sb_error option \<Rightarrow> string + store \<times> effect list" where
  "cleanupInactiveUsers st inactiveThresholdMinutes now fault =
     (let thresholdTime = now - inactiveThresholdMinutes * 60 * 1000 in
      if \<not> valid_time thresholdTime then Inl ''RangeError: Invalid time value''
      else
        case update_users st (\<lambda>r. last_seen r < thresholdTime \<and> is_active r)
               (\<lambda>r. r\<lparr>is_active := False\<rparr>) fault of
          (Some e, _) \<Rightarrow>
            Inr (st, [ConsoleError ''Failed to cleanup inactive users:'' (err_message e)])
        | (None, st') \<Rightarrow> Inr (st', []))"

section \<open>The server: registry maps and room index\<close>

text \<open>
  \<^verbatim>\<open>activePresentations\<close> is a \<^verbatim>\<open>Map<string, Set<string>>\<close>. Both keep insertion
  order, and the disconnect handler iterates the map, so it is an association list
  of member lists. \<^verbatim>\<open>userSockets\<close> and \<^verbatim>\<open>socketUsers\<close> are only ever read by key.
\<close>

type_synonym room_index = "(string \<times> string list) list"

record server =
  db :: "store option"
  activePresentations :: room_index
  userSockets :: "string \<rightharpoonup> string"
  socketUsers :: "string \<rightharpoonup> string"

definition initial :: "store option \<Rightarrow> server" where
  "initial d = \<lparr>db = d, activePresentations = [], userSockets = Map.empty,
                socketUsers = Map.empty\<rparr>"

text \<open>\<^verbatim>\<open>Set.prototype.add\<close> and \<^verbatim>\<open>Set.prototype.delete\<close>.\<close>

definition set_add :: "string list \<Rightarrow> string \<Rightarrow> string list" where
  "set_add xs x = (if x \<in> set xs then xs else xs @ [x])"

definition set_delete :: "string list \<Rightarrow> string \<Rightarrow> string list" where
  "set_delete xs x = removeAll x xs"

definition broadcastToPresentation ::
  "room_index \<Rightarrow> string \<Rightarrow> string \<Rightarrow> payload \<Rightarrow> effect list" where
  "broadcastToPresentation ap presentationId event data =
     (case map_of ap presentationId of
        Some sockets \<Rightarrow> map (\<lambda>socketId. Emit (IoTo socketId) event data) sockets
      | None \<Rightarrow> [])"

definition addSocketToPresentation :: "room_index \<Rightarrow> string \<Rightarrow> string \<Rightarrow> room_index" where
  "addSocketToPresentation ap presentationId socketId =
     (let ap1 = (if map_of ap presentationId = None
                 then AList.update presentationId [] ap else ap)
      in case map_of ap1 presentationId of
           Some sockets \<Rightarrow> AList.update presentationId (set_add sockets socketId) ap1
         | None \<Rightarrow> ap1)"

definition removeSocketFromPresentation :: "room_index \<Rightarrow> string \<Rightarrow> string \<Rightarrow> room_index" where
  "removeSocketFromPresentation ap presentationId socketId =
     (case map_of ap presentationId of
        Some sockets \<Rightarrow>
          (let sockets' = set_delete sockets socketId in
           if length sockets' = 0 then AList.delete presentationId ap
           else AList.update presentationId sockets' ap)
      | None \<Rightarrow> ap)"

text \<open>\<^verbatim>\<open>membersOf\<close> of the specification: the room's set, empty when there is no room.\<close>

definition membersOf :: "room_index \<Rightarrow> string \<Rightarrow> string list" where
  "membersOf ap presentationId =
     (case map_of ap presentationId of Some sockets \<Rightarrow> sockets | None \<Rightarrow> [])"

section \<open>Socket handlers\<close>

text \<open>
  Each handler is a function of the server state, the id of the connection it is
  registered on, the event's data, and whatever the environment contributes: the
  value of \<^verbatim>\<open>uuidv4()\<close>, the store's clock, and for every request the error it comes
  back with (or, for the tables outside the model, its response). The result is the
  new state and the handler's actions in order, for a handler that runs from start
  to end without another one in between; the blocks further down are the parts of
  the handlers that stay whole when handlers interleave.
\<close>

definition join_presentation ::
  "server \<Rightarrow> string \<Rightarrow> string \<Rightarrow> string \<Rightarrow> role option \<Rightarrow> string \<Rightarrow> int \<Rightarrow>
   sb_error option \<Rightarrow> sb_error option \<Rightarrow> sb_error option \<Rightarrow> server \<times> effect list" where
  "join_presentation srv socket presentationId nick role_opt uuid now f1 f2 f3 =
     (let rl = (case role_opt of Some r \<Rightarrow> r | None \<Rightarrow> Viewer) in
      case db srv of
        None \<Rightarrow> (srv, [Emit (Socket socket) ''error'' (PMessage ''Database not available'')])
      | Some st \<Rightarrow>
         (case getPresentationById st presentationId f1 of
            Inl e \<Rightarrow>
              (srv, [StoreCall ''getPresentationById'' False,
                     ConsoleError ''Error joining presentation:'' e,
                     Emit (Socket socket) ''error'' (PMessage ''Failed to join presentation'')])
          | Inr None \<Rightarrow>
              (srv, [StoreCall ''getPresentationById'' True,
                     Emit (Socket socket) ''error'' (PMessage ''Presentation not found'')])
          | Inr (Some presentation) \<Rightarrow>
             (case addUserToPresentation st presentationId nick rl (Some socket) uuid now f2 of
                Inl e \<Rightarrow>
                  (srv, [StoreCall ''getPresentationById'' True,
                         StoreCall ''addUserToPresentation'' False,
                         ConsoleError ''Error joining presentation:'' e,
                         Emit (Socket socket) ''error'' (PMessage ''Failed to join presentation'')])
              | Inr (user, st') \<Rightarrow>
                 (let srv' = srv\<lparr>db := Some st',
                                 activePresentations :=
                                   addSocketToPresentation (activePresentations srv)
                                     presentationId socket,
                                 userSockets := (userSockets srv)(user_id user \<mapsto> socket),
                                 socketUsers := (socketUsers srv)(socket \<mapsto> user_id user)\<rparr>
                  in case getPresentationUsers st' presentationId f3 of
                       Inl e \<Rightarrow>
                         (srv', [StoreCall ''getPresentationById'' True,
                                 StoreCall ''addUserToPresentation'' True,
                                 SocketJoin socket presentationId,
                                 StoreCall ''getPresentationUsers'' False,
                                 ConsoleError ''Error joining presentation:'' e,
                                 Emit (Socket socket) ''error''
                                   (PMessage ''Failed to join presentation'')])
                     | Inr users \<Rightarrow>
                         (srv', [StoreCall ''getPresentationById'' True,
                                 StoreCall ''addUserToPresentation'' True,
                                 SocketJoin socket presentationId,
                                 StoreCall ''getPresentationUsers'' True,
                                 Emit (Socket socket) ''presentation-joined''
                                   (PJoined presentation user users),
                                 Emit (SocketTo presentationId socket) ''user-joined''
                                   (PUser user),
                                 ConsoleLog [''User '', nick, '' joined presentation '',
                                             presentationId]])))))"

definition leave_presentation ::
  "server \<Rightarrow> string \<Rightarrow> string \<Rightarrow> string \<Rightarrow> sb_error option \<Rightarrow> server \<times> effect list" where
  "leave_presentation srv socket presentationId userId fault =
     (case db srv of
        None \<Rightarrow> (srv, [])
      | Some st \<Rightarrow>
         (case removeUserFromPresentation st presentationId userId fault of
            Inl e \<Rightarrow>
              (srv, [StoreCall ''removeUserFromPresentation'' False,
                     ConsoleError ''Error leaving presentation:'' e])
          | Inr st' \<Rightarrow>
              (srv\<lparr>db := Some st',
                    activePresentations :=
                      removeSocketFromPresentation (activePresentations srv)
                        presentationId socket,
                    userSockets := (userSockets srv)(userId := None),
                    socketUsers := (socketUsers srv)(socket := None)\<rparr>,
               [StoreCall ''removeUserFromPresentation'' True,
                SocketLeave socket presentationId,
                Emit (SocketTo presentationId socket) ''user-left'' (PUserId userId),
                ConsoleLog [''User '', userId, '' left presentation '', presentationId]])))"

text \<open>
  The loop of the disconnect handler over the entries of the room index. Removing
  the connection from one room touches that room's entry only, so every entry is
  still as it was when the loop reaches it; the loop walks the keys in map order and
  reads each entry where it stands.
\<close>

fun disconnect_rooms ::
  "string list \<Rightarrow> string \<Rightarrow> string \<Rightarrow> room_index \<Rightarrow> room_index \<times> effect list" where
  "disconnect_rooms [] socket userId ap = (ap, [])"
| "disconnect_rooms (presentationId # rest) socket userId ap =
     (case map_of ap presentationId of
        None \<Rightarrow> disconnect_rooms rest socket userId ap
      | Some sockets \<Rightarrow>
          if socket \<in> set sockets then
            (case disconnect_rooms rest socket userId
                    (removeSocketFromPresentation ap presentationId socket) of
               (ap', out) \<Rightarrow>
                 (ap', Emit (SocketTo presentationId socket) ''user-left'' (PUserId userId) # out))
          else disconnect_rooms rest socket userId ap)"

text \<open>\<^verbatim>\<open>if (userId && db)\<close>: an absent binding and the empty string are both falsy.\<close>

definition disconnect :: "server \<Rightarrow> string \<Rightarrow> sb_error option \<Rightarrow> server \<times> effect list" where
  "disconnect srv socket fault =
     (case (socketUsers srv socket, db srv) of
        (Some userId, Some st) \<Rightarrow>
          if userId = [] then (srv, [ConsoleLog [''User disconnected:'', socket]])
          else
           (case removeUserBySocketId st socket fault of
              Inl e \<Rightarrow>
                (srv, [ConsoleLog [''User disconnected:'', socket],
                       StoreCall ''removeUserBySocketId'' False,
                       ConsoleError ''Error handling disconnect:'' e])
            | Inr st' \<Rightarrow>
               (case disconnect_rooms (map fst (activePresentations srv)) socket userId
                       (activePresentations srv) of
                  (ap', out) \<Rightarrow>
                    (srv\<lparr>db := Some st',
                          activePresentations := ap',
                          userSockets := (userSockets srv)(userId := None),
                          socketUsers := (socketUsers srv)(socket := None)\<rparr>,
                     [ConsoleLog [''User disconnected:'', socket],
                      StoreCall ''removeUserBySocketId'' True] @ out)))
      | _ \<Rightarrow> (srv, [ConsoleLog [''User disconnected:'', socket]]))"

section \<open>Collaborative actions: mutate the store, then broadcast\<close>

text \<open>
  The handlers on slides and text blocks take the response of their Supabase request;
  the fields of the event's data that only travel into that request are left out.
\<close>

definition add_slide ::
  "server \<Rightarrow> string \<Rightarrow> string \<Rightarrow> json response \<Rightarrow> server \<times> effect list" where
  "add_slide srv socket presentationId resp =
     (case db srv of
        None \<Rightarrow> (srv, [Emit (Socket socket) ''error'' (PMessage ''Database not available'')])
      | Some st \<Rightarrow>
         (case addSlide resp of
            Inl e \<Rightarrow>
              (srv, [StoreCall ''addSlide'' False,
                     ConsoleError ''Error adding slide:'' e,
                     Emit (Socket socket) ''error'' (PMessage ''Failed to add slide'')])
          | Inr newSlide \<Rightarrow>
              (srv, StoreCall ''addSlide'' True #
                    broadcastToPresentation (activePresentations srv) presentationId
                      ''slide-added'' (PJson newSlide))))"

definition remove_slide ::
  "server \<Rightarrow> string \<Rightarrow> string \<Rightarrow> string \<Rightarrow> unit response \<Rightarrow> server \<times> effect list" where
  "remove_slide srv socket presentationId slideId resp =
     (case db srv of
        None \<Rightarrow> (srv, [Emit (Socket socket) ''error'' (PMessage ''Database not available'')])
      | Some st \<Rightarrow>
         (case removeSlide resp of
            Inl e \<Rightarrow>
              (srv, [StoreCall ''removeSlide'' False,
                     ConsoleError ''Error removing slide:'' e,
                     Emit (Socket socket) ''error'' (PMessage ''Failed to remove slide'')])
          | Inr u \<Rightarrow>
              (srv, StoreCall ''removeSlide'' True #
                    broadcastToPresentation (activePresentations srv) presentationId
                      ''slide-removed'' (PSlideId slideId))))"

definition update_slide_index ::
  "server \<Rightarrow> string \<Rightarrow> string \<Rightarrow> unit response \<Rightarrow> sb_error option \<Rightarrow> server \<times> effect list" where
  "update_slide_index srv socket presentationId resp fault =
     (case db srv of
        None \<Rightarrow> (srv, [Emit (Socket socket) ''error'' (PMessage ''Database not available'')])
      | Some st \<Rightarrow>
         (case updateSlideIndex resp of
            Inl e \<Rightarrow>
              (srv, [StoreCall ''updateSlideIndex'' False,
                     ConsoleError ''Error updating slide index:'' e,
                     Emit (Socket socket) ''error'' (PMessage ''Failed to update slide index'')])
          | Inr u \<Rightarrow>
             (case getPresentationById st presentationId fault of
                Inl e \<Rightarrow>
                  (srv, [StoreCall ''updateSlideIndex'' True,
                         StoreCall ''getPresentationById'' False,
                         ConsoleError ''Error updating slide index:'' e,
                         Emit (Socket socket) ''error''
                           (PMessage ''Failed to update slide index'')])
              | Inr None \<Rightarrow>
                  (srv, [StoreCall ''updateSlideIndex'' True,
                         StoreCall ''getPresentationById'' True])
              | Inr (Some presentation) \<Rightarrow>
                  (srv, [StoreCall ''updateSlideIndex'' True,
                         StoreCall ''getPresentationById'' True] @
                        broadcastToPresentation (activePresentations srv) presentationId
                          ''slide-index-updated'' (PSlides presentation)))))"

definition update_current_slide ::
  "server \<Rightarrow> string \<Rightarrow> string \<Rightarrow> int \<Rightarrow> sb_error option \<Rightarrow> server \<times> effect list" where
  "update_current_slide srv socket presentationId slideIndex fault =
     (case db srv of
        None \<Rightarrow> (srv, [Emit (Socket socket) ''error'' (PMessage ''Database not available'')])
      | Some st \<Rightarrow>
         (case updatePresentation st presentationId (SetCurrentSlideIndex slideIndex) fault of
            Inl e \<Rightarrow>
              (srv, [StoreCall ''updatePresentation'' False,
                     ConsoleError ''Error updating current slide:'' e,
                     Emit (Socket socket) ''error'' (PMessage ''Failed to update current slide'')])
          | Inr (x, st') \<Rightarrow>
              (srv\<lparr>db := Some st'\<rparr>,
               StoreCall ''updatePresentation'' True #
               broadcastToPresentation (activePresentations srv) presentationId
                 ''current-slide-updated'' (PSlideIndex slideIndex))))"

definition add_text_block ::
  "server \<Rightarrow> string \<Rightarrow> string \<Rightarrow> string \<Rightarrow> json response \<Rightarrow> server \<times> effect list" where
  "add_text_block srv socket presentationId slideId resp =
     (case db srv of
        None \<Rightarrow> (srv, [Emit (Socket socket) ''error'' (PMessage ''Database not available'')])
      | Some st \<Rightarrow>
         (case addTextBlock resp of
            Inl e \<Rightarrow>
              (srv, [StoreCall ''addTextBlock'' False,
                     ConsoleError ''Error adding text block:'' e,
                     Emit (Socket socket) ''error'' (PMessage ''Failed to add text block'')])
          | Inr newTextBlock \<Rightarrow>
              (srv, StoreCall ''addTextBlock'' True #
                    broadcastToPresentation (activePresentations srv) presentationId
                      ''text-block-added'' (PTextBlock slideId newTextBlock))))"

definition update_text_block ::
  "server \<Rightarrow> string \<Rightarrow> string \<Rightarrow> string \<Rightarrow> json response \<Rightarrow> server \<times> effect list" where
  "update_text_block srv socket presentationId slideId resp =
     (case db srv of
        None \<Rightarrow> (srv, [Emit (Socket socket) ''error'' (PMessage ''Database not available'')])
      | Some st \<Rightarrow>
         (case updateTextBlock resp of
            Inl e \<Rightarrow>
              (srv, [StoreCall ''updateTextBlock'' False,
                     ConsoleError ''Error updating text block:'' e,
                     Emit (Socket socket) ''error'' (PMessage ''Failed to update text block'')])
          | Inr updatedTextBlock \<Rightarrow>
              (srv, StoreCall ''updateTextBlock'' True #
                    broadcastToPresentation (activePresentations srv) presentationId
                      ''text-block-updated'' (PTextBlock slideId updatedTextBlock))))"

definition remove_text_block ::
  "server \<Rightarrow> string \<Rightarrow> string \<Rightarrow> string \<Rightarrow> string \<Rightarrow> unit response \<Rightarrow> server \<times> effect list" where
  "remove_text_block srv socket presentationId slideId textBlockId resp =
     (case db srv of
        None \<Rightarrow> (srv, [Emit (Socket socket) ''error'' (PMessage ''Database not available'')])
      | Some st \<Rightarrow>
         (case removeTextBlock resp of
            Inl e \<Rightarrow>
              (srv, [StoreCall ''removeTextBlock'' False,
                     ConsoleError ''Error removing text block:'' e,
                     Emit (Socket socket) ''error'' (PMessage ''Failed to remove text block'')])
          | Inr u \<Rightarrow>
              (srv, StoreCall ''removeTextBlock'' True #
                    broadcastToPresentation (activePresentations srv) presentationId
                      ''text-block-removed'' (PTextBlockId slideId textBlockId))))"

definition update_user_role ::
  "server \<Rightarrow> string \<Rightarrow> string \<Rightarrow> string \<Rightarrow> role \<Rightarrow> sb_error option \<Rightarrow> server \<times> effect list" where
  "update_user_role srv socket presentationId userId rl fault =
     (case db srv of
        None \<Rightarrow> (srv, [Emit (Socket socket) ''error'' (PMessage ''Database not available'')])
      | Some st \<Rightarrow>
         (case updateUserRole st presentationId userId rl fault of
            Inl e \<Rightarrow>
              (srv, [StoreCall ''updateUserRole'' False,
                     ConsoleError ''Error updating user role:'' e,
                     Emit (Socket socket) ''error'' (PMessage ''Failed to update user role'')])
          | Inr (x, st') \<Rightarrow>
              (srv\<lparr>db := Some st'\<rparr>,
               StoreCall ''updateUserRole'' True #
               broadcastToPresentation (activePresentations srv) presentationId
                 ''user-role-updated'' (PUserRole userId rl))))"

definition enter_present_mode ::
  "server \<Rightarrow> string \<Rightarrow> string \<Rightarrow> sb_error option \<Rightarrow> server \<times> effect list" where
  "enter_present_mode srv socket presentationId fault =
     (case db srv of
        None \<Rightarrow> (srv, [Emit (Socket socket) ''error'' (PMessage ''Database not available'')])
      | Some st \<Rightarrow>
         (case updatePresentation st presentationId (SetPresentMode True) fault of
            Inl e \<Rightarrow>
              (srv, [StoreCall ''updatePresentation'' False,
                     ConsoleError ''Error entering present mode:'' e,
                     Emit (Socket socket) ''error'' (PMessage ''Failed to enter present mode'')])
          | Inr (x, st') \<Rightarrow>
              (srv\<lparr>db := Some st'\<rparr>,
               StoreCall ''updatePresentation'' True #
               broadcastToPresentation (activePresentations srv) presentationId
                 ''present-mode-entered'' (PEmpty))))"

definition exit_present_mode ::
  "server \<Rightarrow> string \<Rightarrow> string \<Rightarrow> sb_error option \<Rightarrow> server \<times> effect list" where
  "exit_present_mode srv socket presentationId fault =
     (case db srv of
        None \<Rightarrow> (srv, [Emit (Socket socket) ''error'' (PMessage ''Database not available'')])
      | Some st \<Rightarrow>
         (case updatePresentation st presentationId (SetPresentMode False) fault of
            Inl e \<Rightarrow>
              (srv, [StoreCall ''updatePresentation'' False,
                     ConsoleError ''Error exiting present mode:'' e,
                     Emit (Socket socket) ''error'' (PMessage ''Failed to exit present mode'')])
          | Inr (x, st') \<Rightarrow>
              (srv\<lparr>db := Some st'\<rparr>,
               StoreCall ''updatePresentation'' True #
               broadcastToPresentation (activePresentations srv) presentationId
                 ''present-mode-exited'' (PEmpty))))"

section \<open>The reaper timer and the route that deletes a presentation\<close>

text \<open>The \<^verbatim>\<open>setInterval\<close> callback: one sweep with a threshold of 30 minutes.\<close>

definition reaper_tick :: "server \<Rightarrow> int \<Rightarrow> sb_error option \<Rightarrow> server \<times> effect list" where
  "reaper_tick srv now fault =
     (case db srv of
        None \<Rightarrow> (srv, [])
      | Some st \<Rightarrow>
         (case cleanupInactiveUsers st 30 now fault of
            Inl e \<Rightarrow>
              (srv, [StoreCall ''cleanupInactiveUsers'' False,
                     ConsoleError ''Error cleaning up inactive users:'' e])
          | Inr (st', out) \<Rightarrow>
              (srv\<lparr>db := Some st'\<rparr>, out @ [StoreCall ''cleanupInactiveUsers'' True])))"

text \<open>\<^verbatim>\<open>DELETE /api/presentations/:id\<close>; \<open>Respond\<close> is the HTTP status sent.\<close>

definition delete_presentation_route ::
  "server \<Rightarrow> string \<Rightarrow> sb_error option \<Rightarrow> server \<times> effect list" where
  "delete_presentation_route srv ident fault =
     (case db srv of
        None \<Rightarrow> (srv, [Respond 500])
      | Some st \<Rightarrow>
         (case deletePresentation st ident fault of
            Inl e \<Rightarrow>
              (srv, [StoreCall ''deletePresentation'' False,
                     ConsoleError ''Error deleting presentation:'' e,
                     Respond 500])
          | Inr st' \<Rightarrow>
             (case map_of (activePresentations srv) ident of
                Some sockets \<Rightarrow>
                  (srv\<lparr>db := Some st',
                        activePresentations := AList.delete ident (activePresentations srv)\<rparr>,
                   StoreCall ''deletePresentation'' True #
                   map (\<lambda>socketId. Emit (IoTo socketId) ''presentation-deleted''
                                     (PPresentationId ident)) sockets @
                   [Respond 204])
              | None \<Rightarrow>
                  (srv\<lparr>db := Some st'\<rparr>,
                   [StoreCall ''deletePresentation'' True, Respond 204]))))"

section \<open>Runs of the server\<close>

datatype event =
    JoinPresentation string string string "role option" string int
      "sb_error option" "sb_error option" "sb_error option"
  | LeavePresentation string string string "sb_error option"
  | Disconnect string "sb_error option"
  | AddSlide string string "json response"
  | RemoveSlide string string string "unit response"
  | UpdateSlideIndex string string "unit response" "sb_error option"
  | UpdateCurrentSlide string string int "sb_error option"
  | AddTextBlock string string string "json response"
  | UpdateTextBlock string string string "json response"
  | RemoveTextBlock string string string string "unit response"
  | UpdateUserRole string string string role "sb_error option"
  | EnterPresentMode string string "sb_error option"
  | ExitPresentMode string string "sb_error option"
  | ReaperTick int "sb_error option"
  | DeletePresentation string "sb_error option"

fun step :: "server \<Rightarrow> event \<Rightarrow> server \<times> effect list" where
  "step srv (JoinPresentation socket p nick r uuid now f1 f2 f3) =
     join_presentation srv socket p nick r uuid now f1 f2 f3"
| "step srv (LeavePresentation socket p userId fault) =
     leave_presentation srv socket p userId fault"
| "step srv (Disconnect socket fault) = disconnect srv socket fault"
| "step srv (AddSlide socket p resp) = add_slide srv socket p resp"
| "step srv (RemoveSlide socket p slideId resp) = remove_slide srv socket p slideId resp"
| "step srv (UpdateSlideIndex socket p resp fault) = update_slide_index srv socket p resp fault"
| "step srv (UpdateCurrentSlide socket p i fault) = update_current_slide srv socket p i fault"
| "step srv (AddTextBlock socket p slideId resp) = add_text_block srv socket p slideId resp"
| "step srv (UpdateTextBlock socket p slideId resp) =
     update_text_block srv socket p slideId resp"
| "step srv (RemoveTextBlock socket p slideId blockId resp) =
     remove_text_block srv socket p slideId blockId resp"
| "step srv (UpdateUserRole socket p userId r fault) =
     update_user_role srv socket p userId r fault"
| "step srv (EnterPresentMode socket p fault) = enter_present_mode srv socket p fault"
| "step srv (ExitPresentMode socket p fault) = exit_present_mode srv socket p fault"
| "step srv (ReaperTick now fault) = reaper_tick srv now fault"
| "step srv (DeletePresentation ident fault) = delete_presentation_route srv ident fault"

fun run :: "server \<Rightarrow> event list \<Rightarrow> server" where
  "run srv [] = srv"
| "run srv (e # es) = run (fst (step srv e)) es"

section \<open>Notions used in the statements\<close>

text \<open>An action that, if it is an emission, is an \<^verbatim>\<open>error\<close> event sent to the given connection alone.\<close>

fun error_to :: "string \<Rightarrow> effect \<Rightarrow> bool" where
  "error_to s (Emit t ev d) = (t = Socket s \<and> ev = ''error'')"
| "error_to s _ = True"


text \<open>A store with one presentation and two active sessions, last seen 31 and 29 minutes ago.\<close>

definition two_sessions :: "int \<Rightarrow> store" where
  "two_sessions now =
     \<lparr>presentations = [\<lparr>pres_id = ''p1'', title = ''Deck'', current_slide_index = 0,
                         present_mode = False\<rparr>],
      presentation_users =
        [\<lparr>user_id = ''u1'', presentation_id = ''p1'', nickname = ''ann'', role = Editor,
          socket_id = Some ''s1'', is_active = True, joined_at = 0,
          last_seen = now - 31 * 60 * 1000\<rparr>,
         \<lparr>user_id = ''u2'', presentation_id = ''p1'', nickname = ''bob'', role = Viewer,
          socket_id = Some ''s2'', is_active = True, joined_at = 0,
          last_seen = now - 29 * 60 * 1000\<rparr>]\<rparr>"


text \<open>
  The session rows held by a server, and the relation between an earlier and a later
  table in which every earlier row is still at its place and is either untouched or
  differs in \<^verbatim>\<open>is_active = false\<close> alone.
\<close>

definition users_of :: "server \<Rightarrow> PresentationUser list" where
  "users_of srv = (case db srv of Some st \<Rightarrow> presentation_users st | None \<Rightarrow> [])"

definition kept :: "PresentationUser list \<Rightarrow> PresentationUser list \<Rightarrow> bool" where
  "kept old new \<longleftrightarrow>
     length old \<le> length new \<and>
     list_all2 (\<lambda>r r'. r' = r \<or> r' = r\<lparr>is_active := False\<rparr>) old (take (length old) new)"

text \<open>The events of the session lifecycle and the reaper.\<close>

fun core_event :: "event \<Rightarrow> bool" where
  "core_event (JoinPresentation socket p nick r uuid now f1 f2 f3) = True"
| "core_event (LeavePresentation socket p userId fault) = True"
| "core_event (Disconnect socket fault) = True"
| "core_event (ReaperTick now fault) = True"
| "core_event _ = False"

text \<open>A store with one presentation and no session yet.\<close>

definition one_deck :: store where
  "one_deck =
     \<lparr>presentations = [\<lparr>pres_id = ''p1'', title = ''Deck'', current_slide_index = 0,
                         present_mode = False\<rparr>],
      presentation_users = []\<rparr>"

text \<open>
  The shape of the room index: keys are distinct and a room's members are distinct
  (it is a map of sets), and no room is mapped to the empty set.
\<close>

definition index_ok :: "room_index \<Rightarrow> bool" where
  "index_ok ap \<longleftrightarrow> distinct (map fst ap) \<and> list_all (\<lambda>(p, sockets). distinct sockets) ap"

definition no_empty_room :: "room_index \<Rightarrow> bool" where
  "no_empty_room ap \<longleftrightarrow> list_all (\<lambda>(p, sockets). sockets \<noteq> []) ap"

text \<open>The rooms a connection is a member of, and invariant I1: at most one each.\<close>

definition rooms_of :: "room_index \<Rightarrow> string \<Rightarrow> string list" where
  "rooms_of ap s = filter (\<lambda>p. s \<in> set (membersOf ap p)) (map fst ap)"

definition I1 :: "room_index \<Rightarrow> bool" where
  "I1 ap \<longleftrightarrow> list_all (\<lambda>s. length (rooms_of ap s) \<le> 1) (concat (map snd ap))"

text \<open>
  A store with two presentations, and a server on it where connection \<open>s1\<close> has joined
  the first presentation, \<open>s2\<close> has joined it too, and \<open>s1\<close> has then joined the second
  presentation without leaving the first.
\<close>

definition two_decks :: store where
  "two_decks =
     \<lparr>presentations =
        [\<lparr>pres_id = ''p1'', title = ''Deck'', current_slide_index = 0, present_mode = False\<rparr>,
         \<lparr>pres_id = ''p2'', title = ''Notes'', current_slide_index = 0, present_mode = False\<rparr>],
      presentation_users = []\<rparr>"

definition joined_twice :: server where
  "joined_twice =
     run (initial (Some two_decks))
       [JoinPresentation ''s1'' ''p1'' ''ann'' None ''u1'' 100 None None None,
        JoinPresentation ''s2'' ''p1'' ''bob'' None ''u2'' 200 None None None,
        JoinPresentation ''s1'' ''p2'' ''ann'' None ''u3'' 300 None None None]"

text \<open>
  What a join by connection \<open>y\<close> to presentation \<open>p\<close> may do to the outside world:
  reply to \<open>y\<close> itself and send \<^verbatim>\<open>user-joined\<close> to the room. It makes no connection
  leave a room and addresses no other connection.
\<close>

fun join_action :: "string \<Rightarrow> string \<Rightarrow> effect \<Rightarrow> bool" where
  "join_action y p (Emit (Socket x) ev d) = (x = y)"
| "join_action y p (Emit (SocketTo room x) ev d) = (room = p \<and> x = y \<and> ev = ''user-joined'')"
| "join_action y p (Emit (IoTo x) ev d) = False"
| "join_action y p (SocketLeave x room) = False"
| "join_action y p _ = True"

text \<open>Connection \<open>s1\<close> has joined the presentation as \<open>ann\<close> and is still connected.\<close>

definition first_session :: server where
  "first_session =
     run (initial (Some one_deck))
       [JoinPresentation ''s1'' ''p1'' ''ann'' None ''u1'' 100 None None None]"

text \<open>I1 read over all connections and rooms at once.\<close>

definition one_room_each :: "room_index \<Rightarrow> bool" where
  "one_room_each ap \<longleftrightarrow>
     (\<forall>s p q. s \<in> set (membersOf ap p) \<and> s \<in> set (membersOf ap q) \<longrightarrow> p = q)"


text \<open>Three connections \<open>A\<close>, \<open>B\<close>, \<open>C\<close> have joined the one presentation.\<close>

definition three_members :: server where
  "three_members =
     run (initial (Some one_deck))
       [JoinPresentation ''A'' ''p1'' ''ann'' (Some Editor) ''u1'' 100 None None None,
        JoinPresentation ''B'' ''p1'' ''bob'' None ''u2'' 200 None None None,
        JoinPresentation ''C'' ''p1'' ''cat'' None ''u3'' 300 None None None]"

text \<open>
  A broadcast is an emission through \<^verbatim>\<open>io.to(socketId)\<close>. A trace keeps the order
  \<^emph>\<open>store first\<close> for the store method \<open>m\<close> when every broadcast in it comes after a
  call of \<open>m\<close> that resolved, and no broadcast comes after a store call that threw.
\<close>

fun is_broadcast :: "effect \<Rightarrow> bool" where
  "is_broadcast (Emit (IoTo s) ev d) = True"
| "is_broadcast _ = False"

fun store_first :: "string \<Rightarrow> bool \<Rightarrow> effect list \<Rightarrow> bool" where
  "store_first m committed [] = True"
| "store_first m committed (StoreCall m' ok # es) =
     (if ok then store_first m (committed \<or> m' = m) es else \<not> list_ex is_broadcast es)"
| "store_first m committed (e # es) =
     ((if is_broadcast e then committed else True) \<and> store_first m committed es)"

section \<open>The bookkeeping blocks of the handlers\<close>

text \<open>
  JavaScript runs the code between two awaits without interruption, and a handler
  that waits for the store is suspended while other handlers run. Every handler that
  writes to the three maps does so in one such stretch of code: the join handler
  after its store calls have come back, the leave handler and the disconnect handler
  after theirs, the delete route after its own. A block is one of these stretches,
  with the values it uses. In whatever order the suspended handlers resume, the maps
  go through a sequence of blocks; the store is written by the store calls, not by
  a block.
\<close>

datatype block =
    JoinBlock string string string
  | LeaveBlock string string string
  | DisconnectBlock string string
  | DeleteBlock string

fun apply_block :: "server \<Rightarrow> block \<Rightarrow> server" where
  "apply_block srv (JoinBlock socket presentationId userId) =
     srv\<lparr>activePresentations :=
           addSocketToPresentation (activePresentations srv) presentationId socket,
         userSockets := (userSockets srv)(userId \<mapsto> socket),
         socketUsers := (socketUsers srv)(socket \<mapsto> userId)\<rparr>"
| "apply_block srv (LeaveBlock socket presentationId userId) =
     srv\<lparr>activePresentations :=
           removeSocketFromPresentation (activePresentations srv) presentationId socket,
         userSockets := (userSockets srv)(userId := None),
         socketUsers := (socketUsers srv)(socket := None)\<rparr>"
| "apply_block srv (DisconnectBlock socket userId) =
     srv\<lparr>activePresentations :=
           fst (disconnect_rooms (map fst (activePresentations srv)) socket userId
                  (activePresentations srv)),
         userSockets := (userSockets srv)(userId := None),
         socketUsers := (socketUsers srv)(socket := None)\<rparr>"
| "apply_block srv (DeleteBlock ident) =
     (case map_of (activePresentations srv) ident of
        Some sockets \<Rightarrow>
          srv\<lparr>activePresentations := AList.delete ident (activePresentations srv)\<rparr>
      | None \<Rightarrow> srv)"

fun run_blocks :: "server \<Rightarrow> block list \<Rightarrow> server" where
  "run_blocks srv [] = srv"
| "run_blocks srv (b # bs) = run_blocks (apply_block srv b) bs"

text \<open>
  A sequence of blocks in which the block of a join runs for a connection only while
  the connection is a member of no room other than the one it joins.
\<close>

fun block_allowed :: "server \<Rightarrow> block \<Rightarrow> bool" where
  "block_allowed srv (JoinBlock socket presentationId userId) =
     list_all (\<lambda>q. q = presentationId) (rooms_of (activePresentations srv) socket)"
| "block_allowed srv _ = True"

fun blocks_guarded :: "server \<Rightarrow> block list \<Rightarrow> bool" where
  "blocks_guarded srv [] = True"
| "blocks_guarded srv (b # bs) = (block_allowed srv b \<and> blocks_guarded (apply_block srv b) bs)"

text \<open>Blocks in which \<open>s1\<close> has left the first room before it joins the second.\<close>

definition polite_blocks :: "block list" where
  "polite_blocks =
     [JoinBlock ''s1'' ''p1'' ''u1'',
      JoinBlock ''s2'' ''p1'' ''u2'',
      LeaveBlock ''s1'' ''p1'' ''u1'',
      JoinBlock ''s1'' ''p2'' ''u3'',
      DisconnectBlock ''s2'' ''u2'']"

text \<open>The three maps of a server.\<close>

definition memory :: "server \<Rightarrow> room_index \<times> (string \<rightharpoonup> string) \<times> (string \<rightharpoonup> string)" where
  "memory srv = (activePresentations srv, userSockets srv, socketUsers srv)"

section \<open>Delivery: the rooms of Socket.IO\<close>
















section \<open>The state a handler leaves behind\<close>

text \<open>
  Each lifecycle handler either leaves the server as it was or completes its one
  block of bookkeeping.
\<close>

text \<open>The definitions that evaluate a lifecycle handler on a concrete state.\<close>

lemmas handler_defs = join_presentation_def leave_presentation_def disconnect_def
  getPresentationById_def addUserToPresentation_def getPresentationUsers_def
  removeUserFromPresentation_def removeUserBySocketId_def insert_user_def update_users_def
  request_def single_def addSocketToPresentation_def removeSocketFromPresentation_def
  set_add_def set_delete_def initial_def one_deck_def users_of_def

lemma join_presentation_state:
  "fst (join_presentation srv s p n r u now f1 f2 f3) = srv \<or>
   (\<exists>st presentation user st'.
      db srv = Some st \<and>
      getPresentationById st p f1 = Inr (Some presentation) \<and>
      addUserToPresentation st p n (case r of Some x \<Rightarrow> x | None \<Rightarrow> Viewer) (Some s) u now f2
        = Inr (user, st') \<and>
      fst (join_presentation srv s p n r u now f1 f2 f3) =
        srv\<lparr>db := Some st',
            activePresentations := addSocketToPresentation (activePresentations srv) p s,
            userSockets := (userSockets srv)(user_id user \<mapsto> s),
            socketUsers := (socketUsers srv)(s \<mapsto> user_id user)\<rparr>)"
proof (cases "db srv")
  case None
  then show ?thesis by (simp add: join_presentation_def)
next
  case (Some st)
  note st = this
  show ?thesis
  proof (cases "getPresentationById st p f1")
    case (Inl e)
    with st show ?thesis by (simp add: join_presentation_def)
  next
    case (Inr found)
    note found = this
    show ?thesis
    proof (cases found)
      case None
      with st found show ?thesis by (simp add: join_presentation_def)
    next
      case (Some presentation)
      note pres = this
      show ?thesis
      proof (cases "addUserToPresentation st p n (case r of Some x \<Rightarrow> x | None \<Rightarrow> Viewer)
                      (Some s) u now f2")
        case (Inl e)
        with st found pres show ?thesis by (simp add: join_presentation_def)
      next
        case (Inr added)
        obtain user st' where added: "added = (user, st')" by (cases added)
        show ?thesis
        proof (cases "getPresentationUsers st' p f3")
          case (Inl e)
          with st found pres Inr added show ?thesis
            by (simp add: join_presentation_def)
        next
          case (Inr users)
          with st found pres \<open>addUserToPresentation st p n (case r of Some x \<Rightarrow> x | None \<Rightarrow> Viewer)
                      (Some s) u now f2 = Inr added\<close> added show ?thesis
            by (simp add: join_presentation_def)
        qed
      qed
    qed
  qed
qed

lemma leave_presentation_state:
  "fst (leave_presentation srv s p u fault) = srv \<or>
   (\<exists>st st'.
      db srv = Some st \<and> removeUserFromPresentation st p u fault = Inr st' \<and>
      fst (leave_presentation srv s p u fault) =
        srv\<lparr>db := Some st',
            activePresentations := removeSocketFromPresentation (activePresentations srv) p s,
            userSockets := (userSockets srv)(u := None),
            socketUsers := (socketUsers srv)(s := None)\<rparr>)"
proof (cases "db srv")
  case None
  then show ?thesis by (simp add: leave_presentation_def)
next
  case (Some st)
  then show ?thesis
    by (cases "removeUserFromPresentation st p u fault") (simp_all add: leave_presentation_def)
qed

lemma disconnect_state:
  "fst (disconnect srv s fault) = srv \<or>
   (\<exists>st st' userId.
      db srv = Some st \<and> socketUsers srv s = Some userId \<and> userId \<noteq> [] \<and>
      removeUserBySocketId st s fault = Inr st' \<and>
      fst (disconnect srv s fault) =
        srv\<lparr>db := Some st',
            activePresentations :=
              fst (disconnect_rooms (map fst (activePresentations srv)) s userId
                     (activePresentations srv)),
            userSockets := (userSockets srv)(userId := None),
            socketUsers := (socketUsers srv)(s := None)\<rparr>)"
proof (cases "socketUsers srv s")
  case None
  then show ?thesis by (simp add: disconnect_def)
next
  case (Some userId)
  note uid = this
  show ?thesis
  proof (cases "db srv")
    case None
    with uid show ?thesis by (simp add: disconnect_def)
  next
    case (Some st)
    note st = this
    show ?thesis
    proof (cases "userId = []")
      case True
      with uid st show ?thesis by (simp add: disconnect_def)
    next
      case False
      with uid st show ?thesis
        by (cases "removeUserBySocketId st s fault")
          (simp_all add: disconnect_def split: prod.splits)
    qed
  qed
qed

lemma reaper_tick_state:
  "fst (reaper_tick srv now fault) = srv \<or>
   (\<exists>st st' out.
      db srv = Some st \<and> cleanupInactiveUsers st 30 now fault = Inr (st', out) \<and>
      fst (reaper_tick srv now fault) = srv\<lparr>db := Some st'\<rparr>)"
proof (cases "db srv")
  case None
  then show ?thesis by (simp add: reaper_tick_def)
next
  case (Some st)
  then show ?thesis
    by (cases "cleanupInactiveUsers st 30 now fault")
      (auto simp add: reaper_tick_def)
qed

lemma addUserToPresentation_row:
  assumes "addUserToPresentation st p n rl sock uuid now f = Inr (user, st')"
  shows "user = \<lparr>user_id = uuid, presentation_id = p, nickname = n, role = rl,
                  socket_id = sock, is_active = True, joined_at = now, last_seen = now\<rparr> \<and>
         presentations st' = presentations st \<and>
         presentation_users st' = presentation_users st @ [user]"
  using assms
  by (cases f) (auto simp: addUserToPresentation_def insert_user_def split: if_splits)

text \<open>
  The same in terms of blocks: when no other handler runs in between, a handler
  changes the three maps by its block, or not at all.
\<close>

lemma join_presentation_block:
  "memory (fst (join_presentation srv s p n r u now f1 f2 f3)) = memory srv \<or>
   memory (fst (join_presentation srv s p n r u now f1 f2 f3)) =
     memory (apply_block srv (JoinBlock s p u))"
proof -
  from join_presentation_state [of srv s p n r u now f1 f2 f3] show ?thesis
  proof
    assume "fst (join_presentation srv s p n r u now f1 f2 f3) = srv"
    then show ?thesis by simp
  next
    assume "\<exists>st presentation user st'.
      db srv = Some st \<and>
      getPresentationById st p f1 = Inr (Some presentation) \<and>
      addUserToPresentation st p n (case r of Some x \<Rightarrow> x | None \<Rightarrow> Viewer) (Some s) u now f2
        = Inr (user, st') \<and>
      fst (join_presentation srv s p n r u now f1 f2 f3) =
        srv\<lparr>db := Some st',
            activePresentations := addSocketToPresentation (activePresentations srv) p s,
            userSockets := (userSockets srv)(user_id user \<mapsto> s),
            socketUsers := (socketUsers srv)(s \<mapsto> user_id user)\<rparr>"
    then obtain st presentation user st' where
      a: "addUserToPresentation st p n (case r of Some x \<Rightarrow> x | None \<Rightarrow> Viewer) (Some s) u now f2
            = Inr (user, st')" and
      j: "fst (join_presentation srv s p n r u now f1 f2 f3) =
            srv\<lparr>db := Some st',
                activePresentations := addSocketToPresentation (activePresentations srv) p s,
                userSockets := (userSockets srv)(user_id user \<mapsto> s),
                socketUsers := (socketUsers srv)(s \<mapsto> user_id user)\<rparr>"
      by blast
    have "user_id user = u"
      using addUserToPresentation_row [OF a] by simp
    with j show ?thesis by (simp add: memory_def)
  qed
qed

lemma leave_presentation_block:
  "memory (fst (leave_presentation srv s p u fault)) = memory srv \<or>
   memory (fst (leave_presentation srv s p u fault)) =
     memory (apply_block srv (LeaveBlock s p u))"
  using leave_presentation_state [of srv s p u fault] by (auto simp: memory_def)

lemma disconnect_block:
  "memory (fst (disconnect srv s fault)) = memory srv \<or>
   (\<exists>u. socketUsers srv s = Some u \<and>
        memory (fst (disconnect srv s fault)) = memory (apply_block srv (DisconnectBlock s u)))"
  using disconnect_state [of srv s fault] by (auto simp: memory_def)

lemma delete_presentation_route_block:
  "memory (fst (delete_presentation_route srv p fault)) = memory srv \<or>
   memory (fst (delete_presentation_route srv p fault)) =
     memory (apply_block srv (DeleteBlock p))"
  by (simp add: delete_presentation_route_def memory_def split: option.splits sum.splits)

lemma memory_passthrough:
  "memory (fst (add_slide srv s p jresp)) = memory srv"
  "memory (fst (remove_slide srv s p i uresp)) = memory srv"
  "memory (fst (update_slide_index srv s p uresp fault)) = memory srv"
  "memory (fst (update_current_slide srv s p k fault)) = memory srv"
  "memory (fst (add_text_block srv s p i jresp)) = memory srv"
  "memory (fst (update_text_block srv s p i jresp)) = memory srv"
  "memory (fst (remove_text_block srv s p i b uresp)) = memory srv"
  "memory (fst (update_user_role srv s p u r fault)) = memory srv"
  "memory (fst (enter_present_mode srv s p fault)) = memory srv"
  "memory (fst (exit_present_mode srv s p fault)) = memory srv"
  "memory (fst (reaper_tick srv now fault)) = memory srv"
  by (simp_all add: memory_def add_slide_def remove_slide_def update_slide_index_def
        update_current_slide_def add_text_block_def update_text_block_def
        remove_text_block_def update_user_role_def enter_present_mode_def
        exit_present_mode_def reaper_tick_def
        split: option.splits sum.splits prod.splits)

text \<open>Run without interruption, a handler changes the three maps by one block or not at all.\<close>

lemma step_block:
  "memory (fst (step srv e)) = memory srv \<or>
   (\<exists>b. memory (fst (step srv e)) = memory (apply_block srv b))"
proof (cases e)
  case (JoinPresentation s p n r u now f1 f2 f3)
  then show ?thesis
    using join_presentation_block [of srv s p n r u now f1 f2 f3]
    by (simp del: apply_block.simps) blast
next
  case (LeavePresentation s p u fault)
  then show ?thesis
    using leave_presentation_block [of srv s p u fault]
    by (simp del: apply_block.simps) blast
next
  case (Disconnect s fault)
  then show ?thesis
    using disconnect_block [of srv s fault]
    by (simp del: apply_block.simps) blast
next
  case (DeletePresentation p fault)
  then show ?thesis
    using delete_presentation_route_block [of srv p fault]
    by (simp del: apply_block.simps) blast
qed (simp_all add: memory_passthrough)

section \<open>The room index under its three mutators\<close>

text \<open>
  Every change of \<^verbatim>\<open>activePresentations\<close> goes through
  \<^verbatim>\<open>addSocketToPresentation\<close>, \<^verbatim>\<open>removeSocketFromPresentation\<close> or a
  \<^verbatim>\<open>Map.delete\<close> of a whole entry.
\<close>

lemma membersOf_update [simp]:
  "membersOf (AList.update p xs ap) q = (if q = p then xs else membersOf ap q)"
  by (simp add: membersOf_def update_conv')

lemma membersOf_delete [simp]:
  "membersOf (AList.delete p ap) q = (if q = p then [] else membersOf ap q)"
  by (simp add: membersOf_def delete_conv')

lemma membersOf_addSocketToPresentation:
  "membersOf (addSocketToPresentation ap p s) q =
     (if q = p then set_add (membersOf ap p) s else membersOf ap q)"
  by (cases "map_of ap p")
    (simp_all add: addSocketToPresentation_def update_conv' membersOf_def set_add_def)

lemma membersOf_removeSocketFromPresentation:
  "membersOf (removeSocketFromPresentation ap p s) q =
     (if q = p then removeAll s (membersOf ap p) else membersOf ap q)"
  by (cases "map_of ap p")
    (auto simp add: removeSocketFromPresentation_def set_delete_def Let_def membersOf_def
       update_conv' delete_conv')

lemma in_update_cases:
  "e \<in> set (AList.update k v al) \<Longrightarrow> e = (k, v) \<or> e \<in> set al"
  by (induction al) (auto split: if_splits)

lemma in_delete_subset: "e \<in> set (AList.delete k al) \<Longrightarrow> e \<in> set al"
  by (simp add: AList.delete_eq)

lemma keys_addSocketToPresentation:
  "distinct (map fst ap) \<Longrightarrow> distinct (map fst (addSocketToPresentation ap p s))"
  by (cases "map_of ap p") (simp_all add: addSocketToPresentation_def update_conv' distinct_update)

lemma keys_removeSocketFromPresentation:
  "distinct (map fst ap) \<Longrightarrow> distinct (map fst (removeSocketFromPresentation ap p s))"
  by (cases "map_of ap p")
    (simp_all add: removeSocketFromPresentation_def Let_def distinct_update distinct_delete)

lemma entries_addSocketToPresentation:
  assumes "e \<in> set (addSocketToPresentation ap p s)"
  shows "e = (p, set_add (membersOf ap p) s) \<or> e \<in> set ap"
proof (cases "map_of ap p")
  case None
  with assms have "e \<in> set (AList.update p (set_add [] s) (AList.update p [] ap))"
    by (simp add: addSocketToPresentation_def update_conv')
  then have "e = (p, set_add [] s) \<or> e \<in> set ap"
    by (auto dest!: in_update_cases)
  with None show ?thesis by (simp add: membersOf_def)
next
  case (Some xs)
  with assms have "e \<in> set (AList.update p (set_add xs s) ap)"
    by (simp add: addSocketToPresentation_def)
  with Some show ?thesis
    by (auto dest!: in_update_cases simp: membersOf_def)
qed

lemma removeSocketFromPresentation_cases:
  "removeSocketFromPresentation ap p s = ap \<and> map_of ap p = None \<or>
   removeSocketFromPresentation ap p s = AList.delete p ap \<and>
     removeAll s (membersOf ap p) = [] \<or>
   removeSocketFromPresentation ap p s = AList.update p (removeAll s (membersOf ap p)) ap \<and>
     removeAll s (membersOf ap p) \<noteq> []"
proof (cases "map_of ap p")
  case None
  then show ?thesis by (simp add: removeSocketFromPresentation_def)
next
  case (Some xs)
  then have m: "membersOf ap p = xs" by (simp add: membersOf_def)
  show ?thesis
    unfolding m using Some
    by (cases "removeAll s xs") (simp_all add: removeSocketFromPresentation_def set_delete_def)
qed

lemma entries_removeSocketFromPresentation:
  assumes "e \<in> set (removeSocketFromPresentation ap p s)"
  shows "(e = (p, removeAll s (membersOf ap p)) \<and> removeAll s (membersOf ap p) \<noteq> []) \<or>
         e \<in> set ap"
  using removeSocketFromPresentation_cases [of ap p s] assms
  by (elim disjE conjE) (auto dest: in_delete_subset in_update_cases)

lemma no_empty_room_iff: "no_empty_room ap \<longleftrightarrow> (\<forall>(p, xs) \<in> set ap. xs \<noteq> [])"
  by (simp add: no_empty_room_def list_all_iff)

lemma index_ok_iff:
  "index_ok ap \<longleftrightarrow> distinct (map fst ap) \<and> (\<forall>(p, xs) \<in> set ap. distinct xs)"
  by (simp add: index_ok_def list_all_iff)

lemma no_empty_addSocketToPresentation:
  "no_empty_room ap \<Longrightarrow> no_empty_room (addSocketToPresentation ap p s)"
  unfolding no_empty_room_iff
  by (auto dest!: entries_addSocketToPresentation simp: set_add_def split: if_splits)

lemma no_empty_removeSocketFromPresentation:
  "no_empty_room ap \<Longrightarrow> no_empty_room (removeSocketFromPresentation ap p s)"
  unfolding no_empty_room_iff
  by (auto dest!: entries_removeSocketFromPresentation)

lemma no_empty_delete: "no_empty_room ap \<Longrightarrow> no_empty_room (AList.delete p ap)"
  unfolding no_empty_room_iff by (auto dest: in_delete_subset)

lemma membersOf_entry: "distinct (map fst ap) \<Longrightarrow> (p, xs) \<in> set ap \<Longrightarrow> membersOf ap p = xs"
  by (simp add: membersOf_def)

lemma index_ok_members: "index_ok ap \<Longrightarrow> distinct (membersOf ap p)"
  by (cases "map_of ap p") (auto simp: index_ok_iff membersOf_def dest!: map_of_SomeD)

lemma index_ok_addSocketToPresentation:
  assumes "index_ok ap"
  shows "index_ok (addSocketToPresentation ap p s)"
proof -
  have "distinct (set_add (membersOf ap p) s)"
    using index_ok_members [OF assms, of p] by (simp add: set_add_def)
  then show ?thesis
    using assms unfolding index_ok_iff
    by (auto simp: keys_addSocketToPresentation dest!: entries_addSocketToPresentation)
qed

lemma index_ok_removeSocketFromPresentation:
  assumes "index_ok ap"
  shows "index_ok (removeSocketFromPresentation ap p s)"
proof -
  have "distinct (removeAll s (membersOf ap p))"
    using index_ok_members [OF assms, of p] by (simp add: distinct_removeAll)
  then show ?thesis
    using assms unfolding index_ok_iff
    by (auto simp: keys_removeSocketFromPresentation dest!: entries_removeSocketFromPresentation)
qed

lemma index_ok_delete: "index_ok ap \<Longrightarrow> index_ok (AList.delete p ap)"
  unfolding index_ok_iff by (auto simp: distinct_delete dest: in_delete_subset)

section \<open>The loop of the disconnect handler\<close>

lemma membersOf_disconnect_rooms:
  "membersOf (fst (disconnect_rooms ks s u ap)) q =
     (if q \<in> set ks then removeAll s (membersOf ap q) else membersOf ap q)"
proof (induction ks arbitrary: ap)
  case Nil
  show ?case by simp
next
  case (Cons p rest)
  show ?case
  proof (cases "map_of ap p")
    case None
    then have "membersOf ap p = []" by (simp add: membersOf_def)
    with None Cons show ?thesis by simp
  next
    case (Some xs)
    then have m: "membersOf ap p = xs" by (simp add: membersOf_def)
    show ?thesis
    proof (cases "s \<in> set xs")
      case True
      with Some have
        "fst (disconnect_rooms (p # rest) s u ap) =
           fst (disconnect_rooms rest s u (removeSocketFromPresentation ap p s))"
        by (simp split: prod.splits)
      then show ?thesis
        using m by (simp add: Cons membersOf_removeSocketFromPresentation)
    next
      case False
      then have "removeAll s xs = xs" by simp
      with Some False Cons m show ?thesis by auto
    qed
  qed
qed

lemma no_empty_disconnect_rooms:
  "no_empty_room ap \<Longrightarrow> no_empty_room (fst (disconnect_rooms ks s u ap))"
proof (induction ks arbitrary: ap)
  case Nil
  then show ?case by simp
next
  case (Cons p rest)
  show ?case
  proof (cases "map_of ap p")
    case None
    with Cons show ?thesis by simp
  next
    case (Some xs)
    show ?thesis
    proof (cases "s \<in> set xs")
      case True
      with Some have
        "fst (disconnect_rooms (p # rest) s u ap) =
           fst (disconnect_rooms rest s u (removeSocketFromPresentation ap p s))"
        by (simp split: prod.splits)
      then show ?thesis
        using Cons by (simp add: no_empty_removeSocketFromPresentation)
    next
      case False
      with Some Cons show ?thesis by simp
    qed
  qed
qed

lemma index_ok_disconnect_rooms:
  "index_ok ap \<Longrightarrow> index_ok (fst (disconnect_rooms ks s u ap))"
proof (induction ks arbitrary: ap)
  case Nil
  then show ?case by simp
next
  case (Cons p rest)
  show ?case
  proof (cases "map_of ap p")
    case None
    with Cons show ?thesis by simp
  next
    case (Some xs)
    show ?thesis
    proof (cases "s \<in> set xs")
      case True
      with Some have
        "fst (disconnect_rooms (p # rest) s u ap) =
           fst (disconnect_rooms rest s u (removeSocketFromPresentation ap p s))"
        by (simp split: prod.splits)
      then show ?thesis
        using Cons by (simp add: index_ok_removeSocketFromPresentation)
    next
      case False
      with Some Cons show ?thesis by simp
    qed
  qed
qed

lemma emissions_disconnect_rooms:
  "distinct ks \<Longrightarrow>
   snd (disconnect_rooms ks s u ap) =
     map (\<lambda>p. Emit (SocketTo p s) ''user-left'' (PUserId u))
       (filter (\<lambda>p. s \<in> set (membersOf ap p)) ks)"
proof (induction ks arbitrary: ap)
  case Nil
  show ?case by simp
next
  case (Cons p rest)
  then have d: "distinct rest" and notin: "p \<notin> set rest" by simp_all
  show ?case
  proof (cases "map_of ap p")
    case None
    then have "membersOf ap p = []" by (simp add: membersOf_def)
    with None Cons.IH [OF d] show ?thesis by simp
  next
    case (Some xs)
    then have m: "membersOf ap p = xs" by (simp add: membersOf_def)
    show ?thesis
    proof (cases "s \<in> set xs")
      case True
      have same: "filter (\<lambda>q. s \<in> set (membersOf (removeSocketFromPresentation ap p s) q)) rest =
                  filter (\<lambda>q. s \<in> set (membersOf ap q)) rest"
        using notin by (intro filter_cong) (auto simp: membersOf_removeSocketFromPresentation)
      from True Some have
        "snd (disconnect_rooms (p # rest) s u ap) =
           Emit (SocketTo p s) ''user-left'' (PUserId u) #
           snd (disconnect_rooms rest s u (removeSocketFromPresentation ap p s))"
        by (simp split: prod.splits)
      then show ?thesis
        using True m same by (simp add: Cons.IH [OF d])
    next
      case False
      with Some m Cons.IH [OF d] show ?thesis by simp
    qed
  qed
qed

lemma members_are_keyed: "s \<in> set (membersOf ap p) \<Longrightarrow> p \<in> set (map fst ap)"
  by (cases "map_of ap p") (auto simp: membersOf_def dest: map_of_SomeD intro: rev_image_eqI)

lemma membersOf_disconnect_all:
  "membersOf (fst (disconnect_rooms (map fst ap) s u ap)) q = removeAll s (membersOf ap q)"
proof (cases "q \<in> set (map fst ap)")
  case True
  then show ?thesis by (simp add: membersOf_disconnect_rooms)
next
  case False
  then have "s \<notin> set (membersOf ap q)" using members_are_keyed by blast
  then have "removeAll s (membersOf ap q) = membersOf ap q" by simp
  with False show ?thesis by (simp add: membersOf_disconnect_rooms)
qed

lemma absent_key: "no_empty_room ap \<Longrightarrow> membersOf ap p = [] \<Longrightarrow> p \<notin> fst ` set ap"
proof
  assume ne: "no_empty_room ap" and m: "membersOf ap p = []" and "p \<in> fst ` set ap"
  then obtain xs where "map_of ap p = Some xs"
    by (metis map_of_eq_None_iff not_Some_eq)
  then have "(p, xs) \<in> set ap" and "membersOf ap p = xs"
    by (simp_all add: map_of_SomeD membersOf_def)
  with ne m show False by (auto simp: no_empty_room_iff)
qed

section \<open>What an event does to the room index\<close>

lemma index_add_slide [simp]:
  "activePresentations (fst (add_slide srv s p resp)) = activePresentations srv"
  by (simp add: add_slide_def split: option.splits sum.splits)

lemma index_remove_slide [simp]:
  "activePresentations (fst (remove_slide srv s p i resp)) = activePresentations srv"
  by (simp add: remove_slide_def split: option.splits sum.splits)

lemma index_update_slide_index [simp]:
  "activePresentations (fst (update_slide_index srv s p resp fault)) = activePresentations srv"
  by (simp add: update_slide_index_def split: option.splits sum.splits)

lemma index_update_current_slide [simp]:
  "activePresentations (fst (update_current_slide srv s p i fault)) = activePresentations srv"
  by (simp add: update_current_slide_def split: option.splits sum.splits prod.splits)

lemma index_add_text_block [simp]:
  "activePresentations (fst (add_text_block srv s p i resp)) = activePresentations srv"
  by (simp add: add_text_block_def split: option.splits sum.splits)

lemma index_update_text_block [simp]:
  "activePresentations (fst (update_text_block srv s p i resp)) = activePresentations srv"
  by (simp add: update_text_block_def split: option.splits sum.splits)

lemma index_remove_text_block [simp]:
  "activePresentations (fst (remove_text_block srv s p i b resp)) = activePresentations srv"
  by (simp add: remove_text_block_def split: option.splits sum.splits)

lemma index_update_user_role [simp]:
  "activePresentations (fst (update_user_role srv s p u r fault)) = activePresentations srv"
  by (simp add: update_user_role_def split: option.splits sum.splits prod.splits)

lemma index_enter_present_mode [simp]:
  "activePresentations (fst (enter_present_mode srv s p fault)) = activePresentations srv"
  by (simp add: enter_present_mode_def split: option.splits sum.splits prod.splits)

lemma index_exit_present_mode [simp]:
  "activePresentations (fst (exit_present_mode srv s p fault)) = activePresentations srv"
  by (simp add: exit_present_mode_def split: option.splits sum.splits prod.splits)

lemma index_reaper_tick [simp]:
  "activePresentations (fst (reaper_tick srv now fault)) = activePresentations srv"
  using reaper_tick_state [of srv now fault] by auto

lemma index_delete_presentation_route:
  "activePresentations (fst (delete_presentation_route srv p fault)) = activePresentations srv \<or>
   activePresentations (fst (delete_presentation_route srv p fault)) =
     AList.delete p (activePresentations srv)"
  by (simp add: delete_presentation_route_def split: option.splits sum.splits)

text \<open>What one event can do to the room index.\<close>

lemma step_index:
  "activePresentations (fst (step srv e)) = activePresentations srv \<or>
   (\<exists>p s. activePresentations (fst (step srv e)) =
            addSocketToPresentation (activePresentations srv) p s) \<or>
   (\<exists>p s. activePresentations (fst (step srv e)) =
            removeSocketFromPresentation (activePresentations srv) p s) \<or>
   (\<exists>s u. activePresentations (fst (step srv e)) =
            fst (disconnect_rooms (map fst (activePresentations srv)) s u
                   (activePresentations srv))) \<or>
   (\<exists>p. activePresentations (fst (step srv e)) = AList.delete p (activePresentations srv))"
proof (cases e)
  case (JoinPresentation s p n r u now f1 f2 f3)
  have "activePresentations (fst (join_presentation srv s p n r u now f1 f2 f3)) =
          activePresentations srv \<or>
        activePresentations (fst (join_presentation srv s p n r u now f1 f2 f3)) =
          addSocketToPresentation (activePresentations srv) p s"
    using join_presentation_state [of srv s p n r u now f1 f2 f3] by auto
  with JoinPresentation show ?thesis by auto
next
  case (LeavePresentation s p u fault)
  have "activePresentations (fst (leave_presentation srv s p u fault)) =
          activePresentations srv \<or>
        activePresentations (fst (leave_presentation srv s p u fault)) =
          removeSocketFromPresentation (activePresentations srv) p s"
    using leave_presentation_state [of srv s p u fault] by auto
  with LeavePresentation show ?thesis by auto
next
  case (Disconnect s fault)
  have "activePresentations (fst (disconnect srv s fault)) = activePresentations srv \<or>
        (\<exists>u. activePresentations (fst (disconnect srv s fault)) =
              fst (disconnect_rooms (map fst (activePresentations srv)) s u
                     (activePresentations srv)))"
    using disconnect_state [of srv s fault] by auto
  with Disconnect show ?thesis by auto
next
  case (DeletePresentation p fault)
  then show ?thesis
    using index_delete_presentation_route [of srv p fault] by auto
qed simp_all

lemma step_no_empty_room:
  "no_empty_room (activePresentations srv) \<Longrightarrow>
   no_empty_room (activePresentations (fst (step srv e)))"
  using step_index [of srv e]
  by (auto simp: no_empty_addSocketToPresentation no_empty_removeSocketFromPresentation
        no_empty_disconnect_rooms no_empty_delete)

lemma step_index_ok:
  "index_ok (activePresentations srv) \<Longrightarrow> index_ok (activePresentations (fst (step srv e)))"
  using step_index [of srv e]
  by (auto simp: index_ok_addSocketToPresentation index_ok_removeSocketFromPresentation
        index_ok_disconnect_rooms index_ok_delete)

lemma run_no_empty_room:
  "no_empty_room (activePresentations srv) \<Longrightarrow>
   no_empty_room (activePresentations (run srv evs))"
  by (induction evs arbitrary: srv) (simp_all add: step_no_empty_room)

lemma run_index_ok:
  "index_ok (activePresentations srv) \<Longrightarrow> index_ok (activePresentations (run srv evs))"
  by (induction evs arbitrary: srv) (simp_all add: step_index_ok)

lemma initial_index [simp]:
  "no_empty_room (activePresentations (initial d))" "index_ok (activePresentations (initial d))"
  by (simp_all add: initial_def no_empty_room_def index_ok_def)

section \<open>A concrete run\<close>

lemma joined_twice_state:
  "joined_twice =
     \<lparr>db = Some (two_decks\<lparr>presentation_users :=
            [\<lparr>user_id = ''u1'', presentation_id = ''p1'', nickname = ''ann'', role = Viewer,
              socket_id = Some ''s1'', is_active = True, joined_at = 100, last_seen = 100\<rparr>,
             \<lparr>user_id = ''u2'', presentation_id = ''p1'', nickname = ''bob'', role = Viewer,
              socket_id = Some ''s2'', is_active = True, joined_at = 200, last_seen = 200\<rparr>,
             \<lparr>user_id = ''u3'', presentation_id = ''p2'', nickname = ''ann'', role = Viewer,
              socket_id = Some ''s1'', is_active = True, joined_at = 300, last_seen = 300\<rparr>]\<rparr>),
      activePresentations = [(''p1'', [''s1'', ''s2'']), (''p2'', [''s1''])],
      userSockets = [''u1'' \<mapsto> ''s1'', ''u2'' \<mapsto> ''s2'', ''u3'' \<mapsto> ''s1''],
      socketUsers = [''s1'' \<mapsto> ''u3'', ''s2'' \<mapsto> ''u2'']\<rparr>"
  by (simp add: joined_twice_def two_decks_def handler_defs fun_upd_twist)


lemma three_members_state:
  "db three_members \<noteq> None \<and>
   activePresentations three_members = [(''p1'', [''A'', ''B'', ''C''])]"
  by (simp add: three_members_def handler_defs)


lemma three_members_add_slide:
  "snd (add_slide three_members ''A'' ''p1'' (Data ''slide'')) =
     [StoreCall ''addSlide'' True,
      Emit (IoTo ''A'') ''slide-added'' (PJson ''slide''),
      Emit (IoTo ''B'') ''slide-added'' (PJson ''slide''),
      Emit (IoTo ''C'') ''slide-added'' (PJson ''slide'')]"
proof -
  obtain st where "db three_members = Some st"
    using three_members_state by auto
  then show ?thesis
    using three_members_state
    by (simp add: add_slide_def addSlide_def broadcastToPresentation_def)
qed




section \<open>Joining a presentation that is not in the store\<close>

lemma getPresentationById_absent:
  assumes "presentationId \<notin> set (map pres_id (presentations st))"
  shows "getPresentationById st presentationId None = Inr None"
proof -
  have "filter (\<lambda>p. pres_id p = presentationId) (presentations st) = []"
    using assms by (auto simp: filter_empty_conv)
  then show ?thesis
    by (simp add: getPresentationById_def request_def single_def)
qed

text \<open>
  Claim C5. A join that names a presentation with no row in the store changes nothing:
  the store (so no session row is created), the registry maps and the room index are
  what they were. Whatever the lookup request comes back with, the only emissions are
  \<^verbatim>\<open>error\<close> events to the joining connection; when the request itself succeeds the
  handler reports \<^verbatim>\<open>Presentation not found\<close> and stops.
\<close>

theorem join_unknown_presentation:
  assumes "db srv = Some st"
    and "presentationId \<notin> set (map pres_id (presentations st))"
  shows "fst (join_presentation srv socket presentationId nick r uuid now f1 f2 f3) = srv \<and>
         list_all (error_to socket)
           (snd (join_presentation srv socket presentationId nick r uuid now f1 f2 f3)) \<and>
         (f1 = None \<longrightarrow>
            snd (join_presentation srv socket presentationId nick r uuid now f1 f2 f3) =
              [StoreCall ''getPresentationById'' True,
               Emit (Socket socket) ''error'' (PMessage ''Presentation not found'')])"
proof (cases f1)
  case None
  then show ?thesis
    using assms(1) getPresentationById_absent [OF assms(2)]
    by (simp add: join_presentation_def)
next
  case (Some e)
  then show ?thesis
    using assms(1)
    by (simp add: join_presentation_def getPresentationById_def request_def)
qed

theorem join_unknown_presentation_witness:
  "fst (join_presentation (initial (Some \<lparr>presentations = [], presentation_users = []\<rparr>))
          ''s1'' ''p1'' ''ann'' None ''u1'' 0 None None None) =
     initial (Some \<lparr>presentations = [], presentation_users = []\<rparr>) \<and>
   snd (join_presentation (initial (Some \<lparr>presentations = [], presentation_users = []\<rparr>))
          ''s1'' ''p1'' ''ann'' None ''u1'' 0 None None None) =
     [StoreCall ''getPresentationById'' True,
      Emit (Socket ''s1'') ''error'' (PMessage ''Presentation not found'')]"
  using join_unknown_presentation
    [of "initial (Some \<lparr>presentations = [], presentation_users = []\<rparr>)"
        "\<lparr>presentations = [], presentation_users = []\<rparr>" "''p1''" "''s1''" "''ann''" None
        "''u1''" 0 None None None]
  by (simp add: initial_def)

section \<open>The inactivity sweep\<close>

lemma update_users_ok:
  "update_users st m v None =
     (None, st\<lparr>presentation_users := map (\<lambda>r. if m r then v r else r) (presentation_users st)\<rparr>)"
  by (simp add: update_users_def)

lemma update_users_fault: "update_users st m v (Some e) = (Some e, st)"
  by (simp add: update_users_def)

text \<open>
  Claim C7. One sweep of \<^verbatim>\<open>cleanupInactiveUsers\<close> keeps every row of
  \<^verbatim>\<open>presentation_users\<close> at its place and rewrites a row exactly when its request
  succeeds, the row is active and its \<^verbatim>\<open>last_seen\<close> lies before now minus the
  threshold; the rewritten row differs in \<^verbatim>\<open>is_active = false\<close> only. Every other
  row, in particular one seen more recently than the threshold, is unchanged, so the
  flag only ever goes from true to false. The timer's callback stores the result of
  one such sweep with a threshold of 30 minutes.
\<close>

theorem sweep_marks_exactly_stale:
  assumes "valid_time (now - minutes * 60 * 1000)"
  shows "\<exists>st' out. cleanupInactiveUsers st minutes now fault = Inr (st', out) \<and>
           presentations st' = presentations st \<and>
           length (presentation_users st') = length (presentation_users st) \<and>
           (\<forall>i < length (presentation_users st).
              (let r = presentation_users st ! i; r' = presentation_users st' ! i in
               if fault = None \<and> is_active r \<and> last_seen r < now - minutes * 60 * 1000
               then r' = r\<lparr>is_active := False\<rparr>
               else r' = r)) \<and>
           (minutes = 30 \<and> db srv = Some st \<longrightarrow>
              fst (reaper_tick srv now fault) = srv\<lparr>db := Some st'\<rparr>)"
proof (cases fault)
  case None
  then show ?thesis
    using assms
    by (auto simp add: cleanupInactiveUsers_def update_users_ok Let_def reaper_tick_def)
next
  case (Some e)
  then show ?thesis
    using assms
    by (auto simp add: cleanupInactiveUsers_def update_users_fault Let_def reaper_tick_def)
qed

theorem sweep_marks_exactly_stale_witness:
  "valid_time (1700000000000 - 30 * 60 * 1000) \<and>
   (\<exists>st' out. cleanupInactiveUsers (two_sessions 1700000000000) 30 1700000000000 None
                  = Inr (st', out) \<and>
      \<not> is_active (presentation_users st' ! 0) \<and>
      presentation_users st' ! 1 = presentation_users (two_sessions 1700000000000) ! 1)"
proof -
  have v: "valid_time (1700000000000 - 30 * 60 * 1000)"
    by (simp add: valid_time_def)
  from sweep_marks_exactly_stale [OF v, of "two_sessions 1700000000000" None "initial None"]
  obtain st' out where
    r: "cleanupInactiveUsers (two_sessions 1700000000000) 30 1700000000000 None = Inr (st', out)"
    and rows: "\<forall>i < length (presentation_users (two_sessions 1700000000000)).
              (let r = presentation_users (two_sessions 1700000000000) ! i;
                   r' = presentation_users st' ! i in
               if None = (None :: sb_error option) \<and> is_active r \<and> last_seen r < 1700000000000 - 30 * 60 * 1000
               then r' = r\<lparr>is_active := False\<rparr>
               else r' = r)"
    by blast
  from rows have "\<not> is_active (presentation_users st' ! 0)"
    by (simp add: two_sessions_def Let_def)
  moreover from rows have
    "presentation_users st' ! 1 = presentation_users (two_sessions 1700000000000) ! 1"
    by (simp add: two_sessions_def Let_def)
  ultimately show ?thesis using v r by blast
qed

section \<open>Session rows are only ever deactivated\<close>

lemma kept_refl: "kept xs xs"
  by (simp add: kept_def list_all2_same)

lemma deactivated_trans:
  fixes a b c :: PresentationUser
  assumes "b = a \<or> b = a\<lparr>is_active := False\<rparr>"
    and "c = b \<or> c = b\<lparr>is_active := False\<rparr>"
  shows "c = a \<or> c = a\<lparr>is_active := False\<rparr>"
  using assms by auto

lemma kept_nth:
  "kept xs ys \<longleftrightarrow>
     length xs \<le> length ys \<and>
     (\<forall>i < length xs. ys ! i = xs ! i \<or> ys ! i = (xs ! i)\<lparr>is_active := False\<rparr>)"
  by (simp add: kept_def list_all2_conv_all_nth min_def)

lemma kept_trans:
  assumes "kept xs ys" and "kept ys zs"
  shows "kept xs zs"
proof -
  from assms have len: "length xs \<le> length ys" "length ys \<le> length zs"
    by (simp_all add: kept_nth)
  have "zs ! i = xs ! i \<or> zs ! i = (xs ! i)\<lparr>is_active := False\<rparr>" if i: "i < length xs" for i
  proof -
    have "ys ! i = xs ! i \<or> ys ! i = (xs ! i)\<lparr>is_active := False\<rparr>"
      using assms(1) i by (simp add: kept_nth)
    moreover have "zs ! i = ys ! i \<or> zs ! i = (ys ! i)\<lparr>is_active := False\<rparr>"
      using assms(2) i len by (simp add: kept_nth)
    ultimately show ?thesis by (rule deactivated_trans)
  qed
  then show ?thesis
    using len by (simp add: kept_nth)
qed

lemma kept_deactivate:
  "kept xs (map (\<lambda>r. if m r then r\<lparr>is_active := False\<rparr> else r) xs)"
  by (simp add: kept_nth)

lemma kept_append: "kept xs (xs @ ys)"
  by (simp add: kept_def list_all2_same)

lemma kept_removeUserFromPresentation:
  "removeUserFromPresentation st p u fault = Inr st' \<Longrightarrow>
   kept (presentation_users st) (presentation_users st')"
  by (cases fault) (auto simp: removeUserFromPresentation_def update_users_def kept_deactivate)

lemma kept_removeUserBySocketId:
  "removeUserBySocketId st s fault = Inr st' \<Longrightarrow>
   kept (presentation_users st) (presentation_users st')"
  by (cases fault) (auto simp: removeUserBySocketId_def update_users_def kept_deactivate)

lemma kept_cleanupInactiveUsers:
  "cleanupInactiveUsers st m now fault = Inr (st', out) \<Longrightarrow>
   kept (presentation_users st) (presentation_users st')"
  by (cases fault)
    (auto simp: cleanupInactiveUsers_def update_users_def kept_deactivate kept_refl Let_def
          split: if_splits)

lemma kept_addUserToPresentation:
  "addUserToPresentation st p n r s u now fault = Inr (user, st') \<Longrightarrow>
   kept (presentation_users st) (presentation_users st')"
  by (cases fault)
    (auto simp: addUserToPresentation_def insert_user_def kept_append split: if_splits)

lemma kept_join:
  "kept (users_of srv) (users_of (fst (join_presentation srv s p n r u now f1 f2 f3)))"
  using join_presentation_state [of srv s p n r u now f1 f2 f3]
  by (auto simp: users_of_def kept_refl dest: kept_addUserToPresentation)

lemma kept_leave:
  "kept (users_of srv) (users_of (fst (leave_presentation srv s p u fault)))"
  using leave_presentation_state [of srv s p u fault]
  by (auto simp: users_of_def kept_refl dest: kept_removeUserFromPresentation)

lemma kept_disconnect:
  "kept (users_of srv) (users_of (fst (disconnect srv s fault)))"
  using disconnect_state [of srv s fault]
  by (auto simp: users_of_def kept_refl dest: kept_removeUserBySocketId)

lemma kept_reaper:
  "kept (users_of srv) (users_of (fst (reaper_tick srv now fault)))"
  using reaper_tick_state [of srv now fault]
  by (auto simp: users_of_def kept_refl dest: kept_cleanupInactiveUsers)

lemma kept_step:
  "core_event e \<Longrightarrow> kept (users_of srv) (users_of (fst (step srv e)))"
  by (cases e) (simp_all add: kept_join kept_leave kept_disconnect kept_reaper)

text \<open>
  Claim C9. Along any sequence of joins, leaves, disconnects and reaper sweeps, every
  session row that was in the store is still there, at its place, and is either
  untouched or differs from what it was in \<^verbatim>\<open>is_active = false\<close> alone: no row is
  deleted and no other column of an existing row is written (a join appends its own
  new row).
\<close>

theorem sessions_never_deleted:
  "list_all core_event evs \<Longrightarrow> kept (users_of srv) (users_of (run srv evs))"
proof (induction evs arbitrary: srv)
  case Nil
  show ?case by (simp add: kept_refl)
next
  case (Cons e evs)
  then have "kept (users_of srv) (users_of (fst (step srv e)))"
    and "kept (users_of (fst (step srv e))) (users_of (run (fst (step srv e)) evs))"
    by (simp_all add: kept_step)
  then show ?case
    using kept_trans by simp
qed

theorem sessions_never_deleted_witness:
  "list_all core_event
     [JoinPresentation ''s1'' ''p1'' ''ann'' None ''u1'' 100 None None None,
      Disconnect ''s1'' None] \<and>
   kept (users_of (initial (Some one_deck)))
     (users_of (run (initial (Some one_deck))
        [JoinPresentation ''s1'' ''p1'' ''ann'' None ''u1'' 100 None None None,
         Disconnect ''s1'' None])) \<and>
   users_of (run (initial (Some one_deck))
        [JoinPresentation ''s1'' ''p1'' ''ann'' None ''u1'' 100 None None None,
         Disconnect ''s1'' None]) =
     [\<lparr>user_id = ''u1'', presentation_id = ''p1'', nickname = ''ann'', role = Viewer,
       socket_id = Some ''s1'', is_active = False, joined_at = 100, last_seen = 100\<rparr>]"
  using sessions_never_deleted
    [of "[JoinPresentation ''s1'' ''p1'' ''ann'' None ''u1'' 100 None None None,
          Disconnect ''s1'' None]" "initial (Some one_deck)"]
  by (simp add: handler_defs)

section \<open>No empty room stays in the index\<close>

lemma removeAll_only: "set xs \<subseteq> {s} \<Longrightarrow> removeAll s xs = []"
  by (induction xs) auto

lemma removeSocketFromPresentation_last:
  assumes "set (membersOf ap p) \<subseteq> {s}"
  shows "p \<notin> fst ` set (removeSocketFromPresentation ap p s)"
proof -
  have e: "removeAll s (membersOf ap p) = []"
    using assms by (rule removeAll_only)
  from removeSocketFromPresentation_cases [of ap p s] show ?thesis
  proof (elim disjE conjE)
    assume "removeSocketFromPresentation ap p s = ap" and "map_of ap p = None"
    then show ?thesis by (simp add: map_of_eq_None_iff)
  next
    assume "removeSocketFromPresentation ap p s = AList.delete p ap"
    then show ?thesis by (simp add: delete_notin_dom)
  next
    assume "removeAll s (membersOf ap p) \<noteq> []"
    with e show ?thesis by simp
  qed
qed

text \<open>
  Claim C6. In every state the server can reach from its empty start, whatever the
  events, no entry of the room index holds an empty set. The step that takes the last
  member out of a room deletes the room's key: this holds for
  \<^verbatim>\<open>removeSocketFromPresentation\<close> itself, for a leave whose store call succeeds,
  and for a disconnect of a bound connection whose store call succeeds.
\<close>

theorem last_member_removes_room:
  "no_empty_room (activePresentations (run (initial d) evs)) \<and>
   (set (membersOf ap p) \<subseteq> {s} \<longrightarrow> p \<notin> fst ` set (removeSocketFromPresentation ap p s)) \<and>
   (db srv \<noteq> None \<and> set (membersOf (activePresentations srv) p) \<subseteq> {s} \<longrightarrow>
      p \<notin> fst ` set (activePresentations (fst (leave_presentation srv s p u None)))) \<and>
   (db srv \<noteq> None \<and> socketUsers srv s = Some u \<and> u \<noteq> [] \<and>
    no_empty_room (activePresentations srv) \<and>
    set (membersOf (activePresentations srv) p) \<subseteq> {s} \<longrightarrow>
      p \<notin> fst ` set (activePresentations (fst (disconnect srv s None))))"
proof (intro conjI impI)
  show "no_empty_room (activePresentations (run (initial d) evs))"
    by (simp add: run_no_empty_room)
next
  assume "set (membersOf ap p) \<subseteq> {s}"
  then show "p \<notin> fst ` set (removeSocketFromPresentation ap p s)"
    by (rule removeSocketFromPresentation_last)
next
  assume a: "db srv \<noteq> None \<and> set (membersOf (activePresentations srv) p) \<subseteq> {s}"
  then obtain st where st: "db srv = Some st" by auto
  have "removeUserFromPresentation st p u None \<noteq> Inl e" for e
    by (simp add: removeUserFromPresentation_def update_users_def)
  then obtain st' where "removeUserFromPresentation st p u None = Inr st'"
    by (cases "removeUserFromPresentation st p u None") auto
  with st have "activePresentations (fst (leave_presentation srv s p u None)) =
                  removeSocketFromPresentation (activePresentations srv) p s"
    by (simp add: leave_presentation_def)
  with a show "p \<notin> fst ` set (activePresentations (fst (leave_presentation srv s p u None)))"
    by (simp add: removeSocketFromPresentation_last)
next
  assume a: "db srv \<noteq> None \<and> socketUsers srv s = Some u \<and> u \<noteq> [] \<and>
             no_empty_room (activePresentations srv) \<and>
             set (membersOf (activePresentations srv) p) \<subseteq> {s}"
  then obtain st where st: "db srv = Some st" by auto
  have "removeUserBySocketId st s None \<noteq> Inl e" for e
    by (simp add: removeUserBySocketId_def update_users_def)
  then obtain st' where "removeUserBySocketId st s None = Inr st'"
    by (cases "removeUserBySocketId st s None") auto
  with st a have ap': "activePresentations (fst (disconnect srv s None)) =
                  fst (disconnect_rooms (map fst (activePresentations srv)) s u
                         (activePresentations srv))"
    by (simp add: disconnect_def split: prod.splits)
  have "removeAll s (membersOf (activePresentations srv) p) = []"
    using a by (simp add: removeAll_only)
  then have "membersOf (activePresentations (fst (disconnect srv s None))) p = []"
    by (simp add: ap' membersOf_disconnect_all)
  moreover have "no_empty_room (activePresentations (fst (disconnect srv s None)))"
    using a by (simp add: ap' no_empty_disconnect_rooms)
  ultimately show "p \<notin> fst ` set (activePresentations (fst (disconnect srv s None)))"
    by (rule absent_key [rotated])
qed

theorem last_member_removes_room_witness:
  "no_empty_room (activePresentations (run (initial (Some one_deck))
     [JoinPresentation ''s1'' ''p1'' ''ann'' None ''u1'' 100 None None None,
      LeavePresentation ''s1'' ''p1'' ''u1'' None])) \<and>
   ''p1'' \<notin> fst ` set (removeSocketFromPresentation [(''p1'', [''s1''])] ''p1'' ''s1'') \<and>
   activePresentations (run (initial (Some one_deck))
     [JoinPresentation ''s1'' ''p1'' ''ann'' None ''u1'' 100 None None None]) =
     [(''p1'', [''s1''])] \<and>
   ''p1'' \<notin> fst ` set (activePresentations (fst (leave_presentation
      (run (initial (Some one_deck))
         [JoinPresentation ''s1'' ''p1'' ''ann'' None ''u1'' 100 None None None])
      ''s1'' ''p1'' ''u1'' None))) \<and>
   ''p1'' \<notin> fst ` set (activePresentations (fst (disconnect
      (run (initial (Some one_deck))
         [JoinPresentation ''s1'' ''p1'' ''ann'' None ''u1'' 100 None None None])
      ''s1'' None)))"
  using last_member_removes_room
    [of "Some one_deck"
        "[JoinPresentation ''s1'' ''p1'' ''ann'' None ''u1'' 100 None None None,
          LeavePresentation ''s1'' ''p1'' ''u1'' None]"
        "[(''p1'', [''s1''])]" "''p1''" "''s1''"
        "run (initial (Some one_deck))
           [JoinPresentation ''s1'' ''p1'' ''ann'' None ''u1'' 100 None None None]"
        "''u1''"]
  by (simp add: handler_defs membersOf_def no_empty_room_def)

section \<open>Disconnect\<close>

lemma removeUserBySocketId_ok:
  "removeUserBySocketId st s None =
     Inr (st\<lparr>presentation_users :=
               map (\<lambda>r. if socket_id r = Some s then r\<lparr>is_active := False\<rparr> else r)
                 (presentation_users st)\<rparr>)"
  by (simp add: removeUserBySocketId_def update_users_def)


lemma disconnect_bound:
  assumes "db srv = Some st" and "socketUsers srv s = Some u" and "u \<noteq> []"
  shows "disconnect srv s None =
     (srv\<lparr>db := Some (st\<lparr>presentation_users :=
               map (\<lambda>r. if socket_id r = Some s then r\<lparr>is_active := False\<rparr> else r)
                 (presentation_users st)\<rparr>),
          activePresentations :=
            fst (disconnect_rooms (map fst (activePresentations srv)) s u
                   (activePresentations srv)),
          userSockets := (userSockets srv)(u := None),
          socketUsers := (socketUsers srv)(s := None)\<rparr>,
      [ConsoleLog [''User disconnected:'', s], StoreCall ''removeUserBySocketId'' True] @
      snd (disconnect_rooms (map fst (activePresentations srv)) s u (activePresentations srv)))"
  using assms
  by (simp add: disconnect_def removeUserBySocketId_ok split: prod.splits)

text \<open>
  Claim C10, as amended. When a connection that \<^verbatim>\<open>socketUsers\<close> binds to a non-empty
  user id disconnects and the store call succeeds, then afterwards the connection has
  no \<^verbatim>\<open>socketUsers\<close> entry; \<^verbatim>\<open>userSockets\<close> has no entry for that user id; every
  room's membership is what it was without the connection, so the connection is in no
  room; and after the log line and the store
  call the handler emits one \<^verbatim>\<open>user-left\<close> with that user id to each room that
  contained the connection, in index order.
\<close>

theorem disconnect_cleans_up:
  assumes "db srv = Some st" and "socketUsers srv s = Some u" and "u \<noteq> []"
    and "index_ok (activePresentations srv)"
  shows "socketUsers (fst (disconnect srv s None)) s = None \<and>
         userSockets (fst (disconnect srv s None)) u = None \<and>
         list_all (\<lambda>(p, sockets). s \<notin> set sockets)
           (activePresentations (fst (disconnect srv s None))) \<and>
         (\<forall>p. membersOf (activePresentations (fst (disconnect srv s None))) p =
               removeAll s (membersOf (activePresentations srv) p)) \<and>
         snd (disconnect srv s None) =
           [ConsoleLog [''User disconnected:'', s], StoreCall ''removeUserBySocketId'' True] @
           map (\<lambda>p. Emit (SocketTo p s) ''user-left'' (PUserId u))
             (rooms_of (activePresentations srv) s)"
proof -
  let ?ap' = "fst (disconnect_rooms (map fst (activePresentations srv)) s u
                     (activePresentations srv))"
  note d = disconnect_bound [OF assms(1-3)]
  have keys: "distinct (map fst (activePresentations srv))"
    using assms(4) by (simp add: index_ok_def)
  have ok': "index_ok ?ap'"
    using assms(4) by (rule index_ok_disconnect_rooms)
  have members: "membersOf ?ap' p = removeAll s (membersOf (activePresentations srv) p)" for p
    by (rule membersOf_disconnect_all)
  have "s \<notin> set xs" if "(p, xs) \<in> set ?ap'" for p xs
  proof -
    have "membersOf ?ap' p = xs"
      using ok' that by (simp add: index_ok_def membersOf_entry)
    with members [of p] show ?thesis by auto
  qed
  then have gone: "list_all (\<lambda>(p, sockets). s \<notin> set sockets) ?ap'"
    by (auto simp: list_all_iff)
  have out: "snd (disconnect_rooms (map fst (activePresentations srv)) s u
                    (activePresentations srv)) =
             map (\<lambda>p. Emit (SocketTo p s) ''user-left'' (PUserId u))
               (rooms_of (activePresentations srv) s)"
    using keys by (simp add: emissions_disconnect_rooms rooms_of_def)
  show ?thesis
    using gone members out by (simp add: d)
qed

theorem disconnect_cleans_up_witness:
  "db joined_twice \<noteq> None \<and> socketUsers joined_twice ''s1'' = Some ''u3'' \<and>
   index_ok (activePresentations joined_twice) \<and>
   socketUsers (fst (disconnect joined_twice ''s1'' None)) ''s1'' = None \<and>
   userSockets (fst (disconnect joined_twice ''s1'' None)) ''u3'' = None \<and>
   activePresentations (fst (disconnect joined_twice ''s1'' None)) = [(''p1'', [''s2''])] \<and>
   snd (disconnect joined_twice ''s1'' None) =
     [ConsoleLog [''User disconnected:'', ''s1''], StoreCall ''removeUserBySocketId'' True,
      Emit (SocketTo ''p1'' ''s1'') ''user-left'' (PUserId ''u3''),
      Emit (SocketTo ''p2'' ''s1'') ''user-left'' (PUserId ''u3'')]"
proof -
  have ok: "index_ok (activePresentations joined_twice)"
    by (simp add: joined_twice_state index_ok_def)
  have b: "socketUsers joined_twice ''s1'' = Some ''u3''"
    by (simp add: joined_twice_state)
  have r: "rooms_of (activePresentations joined_twice) ''s1'' = [''p1'', ''p2'']"
    by (simp add: joined_twice_state rooms_of_def membersOf_def)
  obtain st where st: "db joined_twice = Some st"
    by (simp add: joined_twice_state)
  have ap: "activePresentations (fst (disconnect joined_twice ''s1'' None)) = [(''p1'', [''s2''])]"
    by (simp add: joined_twice_state handler_defs)
  from disconnect_cleans_up [OF st b _ ok] r ap st ok b show ?thesis
    by simp
qed


text \<open>
  The claim as first stated also asks that the connection be gone from
  \<^verbatim>\<open>userSockets\<close>. The handler deletes one key, the user id that \<^verbatim>\<open>socketUsers\<close> holds
  for the connection; a connection that joined twice keeps its earlier entry.
\<close>

theorem disconnect_leaves_stale_userSockets_entry:
  "db joined_twice \<noteq> None \<and> socketUsers joined_twice ''s1'' = Some ''u3'' \<and>
   userSockets (fst (disconnect joined_twice ''s1'' None)) ''u1'' = Some ''s1''"
  by (simp add: joined_twice_state handler_defs)

section \<open>Leave and disconnect when the store call fails\<close>

text \<open>
  Claim C4, as amended. When the store call of a leave or of a disconnect fails, the
  handler logs the error and stops: the state it returns is the state it was given,
  with the connection still in the registry maps and in its room, and nothing is
  emitted.
\<close>

theorem store_failure_skips_cleanup:
  assumes "db srv = Some st"
  shows "leave_presentation srv s p u (Some e) =
           (srv, [StoreCall ''removeUserFromPresentation'' False,
                  ConsoleError ''Error leaving presentation:''
                    (''Failed to remove user from presentation: '' @ err_message e)]) \<and>
         (socketUsers srv s = Some uid \<and> uid \<noteq> [] \<longrightarrow>
          disconnect srv s (Some e) =
           (srv, [ConsoleLog [''User disconnected:'', s],
                  StoreCall ''removeUserBySocketId'' False,
                  ConsoleError ''Error handling disconnect:''
                    (''Failed to remove user by socket ID: '' @ err_message e)]))"
  using assms
  by (simp add: leave_presentation_def disconnect_def removeUserFromPresentation_def
        removeUserBySocketId_def update_users_def)

theorem store_failure_skips_cleanup_witness:
  "db joined_twice \<noteq> None \<and> socketUsers joined_twice ''s2'' = Some ''u2'' \<and>
   leave_presentation joined_twice ''s2'' ''p1'' ''u2''
       (Some \<lparr>err_code = ''503'', err_message = ''Service Unavailable''\<rparr>) =
     (joined_twice,
      [StoreCall ''removeUserFromPresentation'' False,
       ConsoleError ''Error leaving presentation:''
         ''Failed to remove user from presentation: Service Unavailable'']) \<and>
   disconnect joined_twice ''s2''
       (Some \<lparr>err_code = ''503'', err_message = ''Service Unavailable''\<rparr>) =
     (joined_twice,
      [ConsoleLog [''User disconnected:'', ''s2''],
       StoreCall ''removeUserBySocketId'' False,
       ConsoleError ''Error handling disconnect:''
         ''Failed to remove user by socket ID: Service Unavailable''])"
proof -
  obtain st where st: "db joined_twice = Some st"
    by (simp add: joined_twice_state)
  have b: "socketUsers joined_twice ''s2'' = Some ''u2''"
    by (simp add: joined_twice_state)
  from store_failure_skips_cleanup
    [OF st, of "''s2''" "''p1''" "''u2''"
       "\<lparr>err_code = ''503'', err_message = ''Service Unavailable''\<rparr>" "''u2''"] st b
  show ?thesis by simp
qed

text \<open>
  Against the claim as first stated (the in-memory cleanup still proceeds): after a
  failed leave, and after a failed disconnect, the connection is still a member of
  its room and still bound.
\<close>

theorem store_failure_blocks_cleanup:
  "''s2'' \<in> set (membersOf (activePresentations (fst (leave_presentation joined_twice ''s2'' ''p1''
       ''u2'' (Some \<lparr>err_code = ''503'', err_message = ''Service Unavailable''\<rparr>)))) ''p1'') \<and>
   socketUsers (fst (leave_presentation joined_twice ''s2'' ''p1''
       ''u2'' (Some \<lparr>err_code = ''503'', err_message = ''Service Unavailable''\<rparr>))) ''s2'' =
     Some ''u2'' \<and>
   ''s2'' \<in> set (membersOf (activePresentations (fst (disconnect joined_twice ''s2''
       (Some \<lparr>err_code = ''503'', err_message = ''Service Unavailable''\<rparr>)))) ''p1'') \<and>
   socketUsers (fst (disconnect joined_twice ''s2''
       (Some \<lparr>err_code = ''503'', err_message = ''Service Unavailable''\<rparr>))) ''s2'' =
     Some ''u2''"
  by (simp add: joined_twice_state handler_defs membersOf_def)

section \<open>A second join by the same participant\<close>

text \<open>
  Claim C2, as amended. A join whose two store calls succeed is handled the same way
  whether or not the participant already has an active session on another connection:
  the store gains one new active row and keeps every earlier row as it was, the new
  connection is bound to the new user id and added to the room, every other binding
  and every other membership stays, and nothing the handler does makes another
  connection leave or be disconnected.
\<close>

theorem join_keeps_prior_connections:
  assumes "db srv = Some st"
    and "getPresentationById st p f1 = Inr (Some presentation)"
    and "addUserToPresentation st p n (case r of Some x \<Rightarrow> x | None \<Rightarrow> Viewer) (Some y)
           uuid now f2 = Inr (user, st')"
  shows "db (fst (join_presentation srv y p n r uuid now f1 f2 f3)) = Some st' \<and>
         presentation_users st' = presentation_users st @ [user] \<and>
         user_id user = uuid \<and> socket_id user = Some y \<and> is_active user \<and>
         socketUsers (fst (join_presentation srv y p n r uuid now f1 f2 f3)) =
           (socketUsers srv)(y \<mapsto> uuid) \<and>
         userSockets (fst (join_presentation srv y p n r uuid now f1 f2 f3)) =
           (userSockets srv)(uuid \<mapsto> y) \<and>
         (\<forall>q. membersOf (activePresentations
                             (fst (join_presentation srv y p n r uuid now f1 f2 f3))) q =
               (if q = p then set_add (membersOf (activePresentations srv) p) y
                else membersOf (activePresentations srv) q)) \<and>
         list_all (join_action y p)
           (snd (join_presentation srv y p n r uuid now f1 f2 f3))"
proof -
  note row = addUserToPresentation_row [OF assms(3)]
  have id: "user_id user = uuid" "socket_id user = Some y" "is_active user"
    using row by simp_all
  show ?thesis
  proof (cases "getPresentationUsers st' p f3")
    case (Inl e)
    with assms id row show ?thesis
      by (simp add: join_presentation_def membersOf_addSocketToPresentation)
  next
    case (Inr users)
    with assms id row show ?thesis
      by (simp add: join_presentation_def membersOf_addSocketToPresentation)
  qed
qed


theorem join_keeps_prior_connections_witness:
  "db first_session \<noteq> None \<and>
   membersOf (activePresentations first_session) ''p1'' = [''s1''] \<and>
   socketUsers (fst (join_presentation first_session ''s2'' ''p1'' ''ann'' None ''u2'' 200
                       None None None)) =
     (socketUsers first_session)(''s2'' \<mapsto> ''u2'') \<and>
   membersOf (activePresentations
                (fst (join_presentation first_session ''s2'' ''p1'' ''ann'' None ''u2'' 200
                        None None None))) ''p1'' = [''s1'', ''s2'']"
proof -
  let ?st = "one_deck\<lparr>presentation_users :=
            [\<lparr>user_id = ''u1'', presentation_id = ''p1'', nickname = ''ann'', role = Viewer,
              socket_id = Some ''s1'', is_active = True, joined_at = 100, last_seen = 100\<rparr>]\<rparr>"
  have st: "db first_session = Some ?st"
    and m: "membersOf (activePresentations first_session) ''p1'' = [''s1'']"
    by (simp_all add: first_session_def handler_defs membersOf_def)
  have g: "getPresentationById ?st ''p1'' None =
             Inr (Some \<lparr>pres_id = ''p1'', title = ''Deck'', current_slide_index = 0,
                        present_mode = False\<rparr>)"
    by (simp add: handler_defs)
  obtain user st' where
    a: "addUserToPresentation ?st ''p1'' ''ann'' (case None of Some x \<Rightarrow> x | None \<Rightarrow> Viewer)
          (Some ''s2'') ''u2'' 200 None = Inr (user, st')"
    by (simp add: handler_defs)
  from join_keeps_prior_connections [OF st g a, of None] st m show ?thesis
    by (simp add: set_add_def)
qed

text \<open>
  Against the claim as first stated (the earlier connection is forced through
  disconnect and the new one ends as the sole binding): after \<open>s2\<close> joins under the
  nickname \<open>s1\<close> joined with, \<open>s1\<close> is still a member of the room and still bound, and
  its session row is still active.
\<close>

theorem reconnect_keeps_stale_connection:
  "membersOf (activePresentations
                (fst (join_presentation first_session ''s2'' ''p1'' ''ann'' None ''u2'' 200
                        None None None))) ''p1'' = [''s1'', ''s2''] \<and>
   socketUsers (fst (join_presentation first_session ''s2'' ''p1'' ''ann'' None ''u2'' 200
                       None None None)) ''s1'' = Some ''u1'' \<and>
   map (\<lambda>r. (nickname r, socket_id r, is_active r))
     (users_of (fst (join_presentation first_session ''s2'' ''p1'' ''ann'' None ''u2'' 200
                       None None None))) =
     [(''ann'', Some ''s1'', True), (''ann'', Some ''s2'', True)]"
  by (simp add: first_session_def handler_defs membersOf_def)

section \<open>Invariant I1: one room per connection\<close>

lemma short_distinct:
  "distinct xs \<Longrightarrow> length xs \<le> 1 \<longleftrightarrow> (\<forall>a \<in> set xs. \<forall>b \<in> set xs. a = b)"
proof (cases xs)
  case Nil
  then show ?thesis by simp
next
  case (Cons a ys)
  assume d: "distinct xs"
  show ?thesis
  proof (cases ys)
    case Nil
    with Cons show ?thesis by simp
  next
    case (Cons b zs)
    with \<open>xs = a # ys\<close> d have "a \<noteq> b" by auto
    with Cons \<open>xs = a # ys\<close> show ?thesis by auto
  qed
qed

lemma set_rooms_of: "set (rooms_of ap s) = {p. s \<in> set (membersOf ap p)}"
  using members_are_keyed by (auto simp: rooms_of_def)

lemma member_in_index:
  "s \<in> set (membersOf ap p) \<Longrightarrow> s \<in> set (concat (map snd ap))"
  by (cases "map_of ap p") (auto simp: membersOf_def dest!: map_of_SomeD intro: bexI [rotated])

lemma I1_iff:
  assumes "distinct (map fst ap)"
  shows "I1 ap \<longleftrightarrow> one_room_each ap"
proof -
  have d: "distinct (rooms_of ap s)" for s
    using assms by (simp add: rooms_of_def)
  have len: "length (rooms_of ap s) \<le> 1 \<longleftrightarrow>
             (\<forall>p q. s \<in> set (membersOf ap p) \<and> s \<in> set (membersOf ap q) \<longrightarrow> p = q)" for s
    using short_distinct [OF d, of s] by (auto simp: set_rooms_of)
  show ?thesis
  proof
    assume i: "I1 ap"
    show "one_room_each ap"
      unfolding one_room_each_def
    proof (intro allI impI)
      fix s p q
      assume m: "s \<in> set (membersOf ap p) \<and> s \<in> set (membersOf ap q)"
      then have "s \<in> set (concat (map snd ap))" by (blast intro: member_in_index)
      with i have "length (rooms_of ap s) \<le> 1" by (auto simp: I1_def list_all_iff)
      with m show "p = q" using len by blast
    qed
  next
    assume "one_room_each ap"
    then have "length (rooms_of ap s) \<le> 1" for s
      using len [of s] unfolding one_room_each_def by blast
    then show "I1 ap" by (simp add: I1_def list_all_iff)
  qed
qed

lemma one_room_each_shrink:
  assumes "one_room_each ap"
    and "\<And>q. set (membersOf ap' q) \<subseteq> set (membersOf ap q)"
  shows "one_room_each ap'"
  using assms unfolding one_room_each_def by blast

lemma one_room_each_add:
  assumes "one_room_each ap" and "list_all (\<lambda>q. q = p) (rooms_of ap s)"
  shows "one_room_each (addSocketToPresentation ap p s)"
proof -
  have only: "s \<in> set (membersOf ap q) \<Longrightarrow> q = p" for q
    using assms(2) by (simp add: list_all_iff set_rooms_of)
  show ?thesis
    unfolding one_room_each_def
  proof (intro allI impI)
    fix x a b
    assume m: "x \<in> set (membersOf (addSocketToPresentation ap p s) a) \<and>
               x \<in> set (membersOf (addSocketToPresentation ap p s) b)"
    have in_old: "x \<in> set (membersOf ap c) \<or> (x = s \<and> c = p)"
      if "x \<in> set (membersOf (addSocketToPresentation ap p s) c)" for c
      using that by (auto simp: membersOf_addSocketToPresentation set_add_def split: if_splits)
    from m in_old [of a] in_old [of b] only assms(1) show "a = b"
      unfolding one_room_each_def by blast
  qed
qed

lemma apply_block_index:
  "activePresentations (apply_block srv b) = activePresentations srv \<or>
   (\<exists>p s. activePresentations (apply_block srv b) =
            addSocketToPresentation (activePresentations srv) p s) \<or>
   (\<exists>p s. activePresentations (apply_block srv b) =
            removeSocketFromPresentation (activePresentations srv) p s) \<or>
   (\<exists>s u. activePresentations (apply_block srv b) =
            fst (disconnect_rooms (map fst (activePresentations srv)) s u
                   (activePresentations srv))) \<or>
   (\<exists>p. activePresentations (apply_block srv b) = AList.delete p (activePresentations srv))"
proof (cases b)
  case (JoinBlock s p u)
  then show ?thesis by auto
next
  case (LeaveBlock s p u)
  then show ?thesis by auto
next
  case (DisconnectBlock s u)
  then show ?thesis by auto
next
  case (DeleteBlock p)
  then show ?thesis by (cases "map_of (activePresentations srv) p") auto
qed

lemma apply_block_index_ok:
  "index_ok (activePresentations srv) \<Longrightarrow> index_ok (activePresentations (apply_block srv b))"
  using apply_block_index [of srv b]
  by (auto simp: index_ok_addSocketToPresentation index_ok_removeSocketFromPresentation
        index_ok_disconnect_rooms index_ok_delete)

lemma run_blocks_index_ok:
  "index_ok (activePresentations srv) \<Longrightarrow> index_ok (activePresentations (run_blocks srv bs))"
  by (induction bs arbitrary: srv) (simp_all add: apply_block_index_ok)

lemma apply_block_one_room_each:
  assumes "one_room_each (activePresentations srv)" and "block_allowed srv b"
  shows "one_room_each (activePresentations (apply_block srv b))"
proof (cases b)
  case (JoinBlock s p u)
  with assms show ?thesis by (simp add: one_room_each_add)
next
  case (LeaveBlock s p u)
  have "set (membersOf (removeSocketFromPresentation (activePresentations srv) p s) q) \<subseteq>
        set (membersOf (activePresentations srv) q)" for q
    by (auto simp: membersOf_removeSocketFromPresentation)
  with assms(1) LeaveBlock show ?thesis
    by (simp add: one_room_each_shrink)
next
  case (DisconnectBlock s u)
  have "set (membersOf (fst (disconnect_rooms (map fst (activePresentations srv)) s u
                              (activePresentations srv))) q) \<subseteq>
        set (membersOf (activePresentations srv) q)" for q
    by (auto simp: membersOf_disconnect_all)
  with assms(1) DisconnectBlock show ?thesis
    by (simp add: one_room_each_shrink)
next
  case (DeleteBlock p)
  have "set (membersOf (AList.delete p (activePresentations srv)) q) \<subseteq>
        set (membersOf (activePresentations srv) q)" for q
    by simp
  with assms(1) DeleteBlock show ?thesis
    by (cases "map_of (activePresentations srv) p") (simp_all add: one_room_each_shrink)
qed

lemma run_blocks_one_room_each:
  "one_room_each (activePresentations srv) \<Longrightarrow> blocks_guarded srv bs \<Longrightarrow>
   one_room_each (activePresentations (run_blocks srv bs))"
  by (induction bs arbitrary: srv) (simp_all add: apply_block_one_room_each)

lemma blocks_guarded_take: "blocks_guarded srv bs \<Longrightarrow> blocks_guarded srv (take n bs)"
proof (induction bs arbitrary: srv n)
  case Nil
  then show ?case by simp
next
  case (Cons b bs)
  then show ?case by (cases n) simp_all
qed

text \<open>
  Claim C3, as amended. Take any sequence of bookkeeping blocks, in whatever order the
  handlers come to run them, in which the block of a join runs for a connection only
  while that connection is a member of no other presentation's room. From the empty
  start, after each block of the sequence every connection is a member of at most one
  room.
\<close>

theorem one_room_when_join_blocks_are_guarded:
  assumes "blocks_guarded (initial d) bs"
  shows "I1 (activePresentations (run_blocks (initial d) (take n bs)))"
proof -
  have "one_room_each (activePresentations (initial d))"
    by (simp add: one_room_each_def initial_def membersOf_def)
  then have "one_room_each (activePresentations (run_blocks (initial d) (take n bs)))"
    using assms by (intro run_blocks_one_room_each blocks_guarded_take)
  moreover have "distinct (map fst (activePresentations (run_blocks (initial d) (take n bs))))"
    using run_blocks_index_ok [OF initial_index(2), of d "take n bs"] by (simp add: index_ok_def)
  ultimately show ?thesis by (simp add: I1_iff)
qed

text \<open>
  Against the claim as first stated: the join handler adds the connection to the room
  it names and touches no other room, so a connection that joins a second presentation
  without leaving the first is a member of both.
\<close>

theorem second_join_puts_connection_in_two_rooms:
  "\<not> I1 (activePresentations joined_twice) \<and>
   rooms_of (activePresentations joined_twice) ''s1'' = [''p1'', ''p2'']"
  by (simp add: joined_twice_state I1_def rooms_of_def membersOf_def)

text \<open>
  In terms of blocks that run is three join blocks, and the third is not allowed where
  it runs.
\<close>

lemma joined_twice_blocks:
  "activePresentations joined_twice =
     activePresentations
       (run_blocks (initial None)
          [JoinBlock ''s1'' ''p1'' ''u1'', JoinBlock ''s2'' ''p1'' ''u2'',
           JoinBlock ''s1'' ''p2'' ''u3'']) \<and>
   \<not> blocks_guarded (initial None)
       [JoinBlock ''s1'' ''p1'' ''u1'', JoinBlock ''s2'' ''p1'' ''u2'',
        JoinBlock ''s1'' ''p2'' ''u3'']"
  by (simp add: joined_twice_state initial_def addSocketToPresentation_def set_add_def
        rooms_of_def membersOf_def)


lemma polite_blocks_guarded: "blocks_guarded (initial d) polite_blocks"
  by (simp add: polite_blocks_def initial_def addSocketToPresentation_def
        removeSocketFromPresentation_def set_add_def set_delete_def rooms_of_def membersOf_def)

theorem one_room_when_join_blocks_are_guarded_witness:
  "blocks_guarded (initial None) polite_blocks \<and>
   I1 (activePresentations (run_blocks (initial None) (take 4 polite_blocks))) \<and>
   activePresentations (run_blocks (initial None) (take 4 polite_blocks)) =
     [(''p1'', [''s2'']), (''p2'', [''s1''])]"
proof -
  have "activePresentations (run_blocks (initial None) (take 4 polite_blocks)) =
          [(''p1'', [''s2'']), (''p2'', [''s1''])]"
    by (simp add: polite_blocks_def initial_def addSocketToPresentation_def
          removeSocketFromPresentation_def set_add_def set_delete_def)
  with one_room_when_join_blocks_are_guarded [OF polite_blocks_guarded, of None 4]
    polite_blocks_guarded [of None]
  show ?thesis by simp
qed


section \<open>Broadcast\<close>

lemma broadcastToPresentation_members:
  "broadcastToPresentation ap p ev d = map (\<lambda>s. Emit (IoTo s) ev d) (membersOf ap p)"
  by (cases "map_of ap p") (simp_all add: broadcastToPresentation_def membersOf_def)








section \<open>The store is written before anything is broadcast\<close>

lemma store_first_emits:
  "store_first m True (map (\<lambda>s. Emit (IoTo s) ev d) xs)"
  by (induction xs) simp_all

lemma store_first_add_slide:
  "store_first ''addSlide'' False (snd (add_slide srv s p resp))"
  by (simp add: add_slide_def broadcastToPresentation_members store_first_emits
        split: option.splits sum.splits)

lemma store_first_remove_slide:
  "store_first ''removeSlide'' False (snd (remove_slide srv s p i resp))"
  by (simp add: remove_slide_def broadcastToPresentation_members store_first_emits
        split: option.splits sum.splits)

lemma store_first_update_slide_index:
  "store_first ''updateSlideIndex'' False (snd (update_slide_index srv s p resp fault))"
  by (simp add: update_slide_index_def broadcastToPresentation_members store_first_emits
        split: option.splits sum.splits)

lemma store_first_update_current_slide:
  "store_first ''updatePresentation'' False (snd (update_current_slide srv s p i fault))"
  by (simp add: update_current_slide_def broadcastToPresentation_members store_first_emits
        split: option.splits sum.splits prod.splits)

lemma store_first_add_text_block:
  "store_first ''addTextBlock'' False (snd (add_text_block srv s p i resp))"
  by (simp add: add_text_block_def broadcastToPresentation_members store_first_emits
        split: option.splits sum.splits)

lemma store_first_update_text_block:
  "store_first ''updateTextBlock'' False (snd (update_text_block srv s p i resp))"
  by (simp add: update_text_block_def broadcastToPresentation_members store_first_emits
        split: option.splits sum.splits)

lemma store_first_remove_text_block:
  "store_first ''removeTextBlock'' False (snd (remove_text_block srv s p i b resp))"
  by (simp add: remove_text_block_def broadcastToPresentation_members store_first_emits
        split: option.splits sum.splits)

lemma store_first_update_user_role:
  "store_first ''updateUserRole'' False (snd (update_user_role srv s p u r fault))"
  by (simp add: update_user_role_def broadcastToPresentation_members store_first_emits
        split: option.splits sum.splits prod.splits)

lemma store_first_enter_present_mode:
  "store_first ''updatePresentation'' False (snd (enter_present_mode srv s p fault))"
  by (simp add: enter_present_mode_def broadcastToPresentation_members store_first_emits
        split: option.splits sum.splits prod.splits)

lemma store_first_exit_present_mode:
  "store_first ''updatePresentation'' False (snd (exit_present_mode srv s p fault))"
  by (simp add: exit_present_mode_def broadcastToPresentation_members store_first_emits
        split: option.splits sum.splits prod.splits)

text \<open>
  Claim C8. In the trace of every collaborative-action handler, for every state, event
  data and outcome of the store, each broadcast comes after the point where the
  handler's store mutation has resolved, and nothing is broadcast once a store call
  has thrown.
\<close>

theorem store_write_precedes_broadcast:
  "store_first ''addSlide'' False (snd (add_slide srv s p jresp)) \<and>
   store_first ''removeSlide'' False (snd (remove_slide srv s p slideId uresp)) \<and>
   store_first ''updateSlideIndex'' False (snd (update_slide_index srv s p uresp fault)) \<and>
   store_first ''updatePresentation'' False (snd (update_current_slide srv s p i fault)) \<and>
   store_first ''addTextBlock'' False (snd (add_text_block srv s p slideId jresp)) \<and>
   store_first ''updateTextBlock'' False (snd (update_text_block srv s p slideId jresp)) \<and>
   store_first ''removeTextBlock'' False (snd (remove_text_block srv s p slideId blockId uresp)) \<and>
   store_first ''updateUserRole'' False (snd (update_user_role srv s p userId r fault)) \<and>
   store_first ''updatePresentation'' False (snd (enter_present_mode srv s p fault)) \<and>
   store_first ''updatePresentation'' False (snd (exit_present_mode srv s p fault))"
  by (intro conjI store_first_add_slide store_first_remove_slide store_first_update_slide_index
        store_first_update_current_slide store_first_add_text_block
        store_first_update_text_block store_first_remove_text_block
        store_first_update_user_role store_first_enter_present_mode
        store_first_exit_present_mode)


theorem store_write_precedes_broadcast_witness:
  "store_first ''addSlide'' False
     [StoreCall ''addSlide'' True,
      Emit (IoTo ''A'') ''slide-added'' (PJson ''slide''),
      Emit (IoTo ''B'') ''slide-added'' (PJson ''slide''),
      Emit (IoTo ''C'') ''slide-added'' (PJson ''slide'')] \<and>
   \<not> store_first ''addSlide'' False
     [Emit (IoTo ''A'') ''slide-added'' (PJson ''slide''), StoreCall ''addSlide'' True]"
  using store_write_precedes_broadcast [of three_members "''A''" "''p1''" "Data ''slide''"]
    three_members_add_slide
  by simp

end
